theory Spec2Isabelle
  imports Complex_Main "HOL-Library.Log_Nat"
begin

section \<open>Numbers\<close>

text \<open>
  The calculator (src/app.js) computes with JavaScript numbers, which are IEEE 754
  binary64. Two models of them are used.

  In the first, a finite number is a \<^typ>\<open>real\<close> and the operations are those of the
  reals; a value that JavaScript computes as \<open>NaN\<close> or \<open>\<plusminus>Infinity\<close> is \<open>None\<close> of
  \<^typ>\<open>real option\<close>. A division yields a non-finite value exactly when the divisor is
  zero, which \<open>jsDiv\<close> records; \<open>isFinite\<close> is then the test for \<open>Some\<close>. This model
  carries the control flow, the errors and the algebra of the engine.
\<close>

definition jsDiv :: "real \<Rightarrow> real \<Rightarrow> real option" where
  "jsDiv a b = (if b = 0 then None else Some (a / b))"

text \<open>
  In the second, every operation is rounded. A finite binary64 number is a real of the
  form \<open>n * 2 ^ (e - 52)\<close> with \<open>|n| < 2 ^ 53\<close> and \<open>-1022 \<le> e \<le> 1023\<close>. \<open>fl x\<close> is the
  multiple of \<open>2 ^ (expo x - 52)\<close> nearest to \<open>x\<close>, ties to the even multiple, where
  \<open>expo x\<close> is the binary exponent of \<open>x\<close> and not less than \<open>-1022\<close> (gradual
  underflow). \<open>fl64\<close> is the result of an operation whose exact value is \<open>x\<close>: a value
  that rounds to \<open>2 ^ 1024\<close> or beyond is \<open>\<plusminus>Infinity\<close>. The operators take and return
  \<^typ>\<open>real option\<close>, \<open>None\<close> being any non-finite value; \<open>lit\<close> is a decimal literal
  of the source. The sign of zero is in neither model. The functions of the source that
  are also given in this model carry the suffix \<open>64\<close>.
\<close>

definition rne :: "real \<Rightarrow> int" where
  "rne y = (let f = \<lfloor>y\<rfloor>; r = y - of_int f
            in if r < 1 / 2 then f
               else if 1 / 2 < r then f + 1
               else if even f then f else f + 1)"

definition expo :: "real \<Rightarrow> int" where
  "expo x = max (- 1022)
              (if 1 \<le> \<bar>x\<bar> then bitlen \<lfloor>\<bar>x\<bar>\<rfloor> - 1 else - bitlen (\<lceil>1 / \<bar>x\<bar>\<rceil> - 1))"

definition fl :: "real \<Rightarrow> real" where
  "fl x = (if x = 0 then 0
           else of_int (rne (x / 2 powi (expo x - 52))) * 2 powi (expo x - 52))"

definition fl64 :: "real \<Rightarrow> real option" where
  "fl64 x = (let r = fl x in if \<bar>r\<bar> < 2 ^ 1024 then Some r else None)"

definition fadd :: "real option \<Rightarrow> real option \<Rightarrow> real option" where
  "fadd a b = (case a of None \<Rightarrow> None
               | Some x \<Rightarrow> (case b of None \<Rightarrow> None | Some y \<Rightarrow> fl64 (x + y)))"

definition fsub :: "real option \<Rightarrow> real option \<Rightarrow> real option" where
  "fsub a b = (case a of None \<Rightarrow> None
               | Some x \<Rightarrow> (case b of None \<Rightarrow> None | Some y \<Rightarrow> fl64 (x - y)))"

definition fmul :: "real option \<Rightarrow> real option \<Rightarrow> real option" where
  "fmul a b = (case a of None \<Rightarrow> None
               | Some x \<Rightarrow> (case b of None \<Rightarrow> None | Some y \<Rightarrow> fl64 (x * y)))"

definition fdiv :: "real option \<Rightarrow> real option \<Rightarrow> real option" where
  "fdiv a b = (case a of None \<Rightarrow> None
               | Some x \<Rightarrow> (case b of None \<Rightarrow> None
                   | Some y \<Rightarrow> if y = 0 then None else fl64 (x / y)))"

definition lit :: "real \<Rightarrow> real option" where
  "lit d = fl64 d"

text \<open>Exceptions the engine can throw, and the three alerts of the click handler.\<close>

datatype error =
    TypeError          \<comment> \<open>destructuring or reading a property of \<open>undefined\<close>\<close>
  | RangeError         \<comment> \<open>\<open>new Array(n)\<close> with a negative length\<close>
  | InvalidInputs      \<comment> \<open>alert: a parsed input is \<open>NaN\<close>\<close>
  | NoReferenceData    \<comment> \<open>alert: \<open>T0_op\<close> is not finite\<close>
  | NoFeasiblePoints   \<comment> \<open>alert: the sweep produced no point\<close>

section \<open>Constants and the salt catalog\<close>

definition B1 :: real where "B1 = - 1.06152"
definition B2 :: real where "B2 = 3.25726"
definition B3 :: real where "B3 = - 37.2263"

definition WATER_MOLAR_MASS :: real where "WATER_MOLAR_MASS = 18.01528"

definition ALPHA_SII :: real where "ALPHA_SII = 0.927"

text \<open>
  \<open>saltProps\<close> and \<open>gasData\<close> are object literals. Reading \<open>obj[key]\<close> finds the
  object's own property, or else a property inherited from \<open>Object.prototype\<close>
  (a function or object that has none of the fields the engine reads), or else
  \<open>undefined\<close>.
\<close>

datatype 'a property = Own 'a | Inherited | Undefined

definition objectPrototypeNames :: "string list" where
  "objectPrototypeNames =
     [''constructor'', ''hasOwnProperty'', ''isPrototypeOf'', ''propertyIsEnumerable'',
      ''toLocaleString'', ''toString'', ''valueOf'', ''__proto__'',
      ''__defineGetter__'', ''__defineSetter__'', ''__lookupGetter__'', ''__lookupSetter__'']"

record saltProp =
  molarMass :: real
  ionCount :: nat

definition saltProps :: "string \<Rightarrow> saltProp property" where
  "saltProps key =
     (if key = ''NaCl'' then Own \<lparr>molarMass = 58.44, ionCount = 2\<rparr>
      else if key = ''KCl'' then Own \<lparr>molarMass = 74.55, ionCount = 2\<rparr>
      else if key = ''MgCl2'' then Own \<lparr>molarMass = 95.21, ionCount = 3\<rparr>
      else if key \<in> set objectPrototypeNames then Inherited
      else Undefined)"

section \<open>Electrolyte model, activity correlation, equilibrium shift\<close>

text \<open>
  \<open>computeXFromSalinity\<close>: the destructuring \<open>const { molarMass, ionCount } =
  saltProps[saltKey]\<close> throws a \<open>TypeError\<close> on \<open>undefined\<close>; on an inherited
  property both fields are \<open>undefined\<close>, \<open>molesSalt\<close> is \<open>NaN\<close> and so is the
  result. The divisors \<open>molarMass\<close> and \<open>WATER_MOLAR_MASS\<close> are non-zero constants.
\<close>

definition computeXFromSalinity :: "real \<Rightarrow> string \<Rightarrow> error + real option" where
  "computeXFromSalinity salinity saltKey =
     (case saltProps saltKey of
        Undefined \<Rightarrow> Inl TypeError
      | Inherited \<Rightarrow> Inr None
      | Own p \<Rightarrow>
          (let massSalt = salinity;
               massWater = 100 - salinity;
               molesSalt = massSalt / molarMass p;
               molesWater = massWater / WATER_MOLAR_MASS
           in if saltKey = ''MgCl2''
              then (let totalMoles = molesWater + 3 * molesSalt
                    in Inr (jsDiv (4 * molesSalt) totalMoles))
              else (let totalMoles = molesWater + 2 * molesSalt
                    in Inr (jsDiv (2 * molesSalt) totalMoles))))"

definition computeLnawFromX :: "real \<Rightarrow> real" where
  "computeLnawFromX X = B1 * X + B2 * X * X + B3 * X * X * X"

definition computeDeltaT :: "real \<Rightarrow> real \<Rightarrow> real \<Rightarrow> real option" where
  "computeDeltaT beta lnaw T0 = jsDiv (beta * lnaw * T0 * T0) (1 + beta * lnaw * T0)"

definition computeLnawFromDelta :: "real \<Rightarrow> real \<Rightarrow> real \<Rightarrow> real option" where
  "computeLnawFromDelta beta dT T0 =
     (let denominator = beta * T0 * (T0 - dT) in jsDiv dT denominator)"

definition computeSalinityFromX :: "real \<Rightarrow> string \<Rightarrow> error + real option" where
  "computeSalinityFromX X saltKey =
     (case saltProps saltKey of
        Undefined \<Rightarrow> Inl TypeError
      | Inherited \<Rightarrow> Inr None
      | Own p \<Rightarrow>
          (if saltKey = ''MgCl2''
           then Inr (jsDiv (molarMass p * X * 100)
                           ((4 - 3 * X) * WATER_MOLAR_MASS + molarMass p * X))
           else Inr (jsDiv (molarMass p * X * 100)
                           ((2 - 2 * X) * WATER_MOLAR_MASS + molarMass p * X))))"

text \<open>
  The same three functions in binary64, operation by operation in the order in which
  JavaScript evaluates them: \<open>B1 * X + B2 * X * X + B3 * X * X * X\<close> is
  \<open>((B1 * X) + ((B2 * X) * X)) + (((B3 * X) * X) * X)\<close>, and \<open>molarMass * X * 100\<close> is
  \<open>(molarMass * X) * 100\<close>.
\<close>

definition computeXFromSalinity64 :: "real \<Rightarrow> string \<Rightarrow> error + real option" where
  "computeXFromSalinity64 salinity saltKey =
     (case saltProps saltKey of
        Undefined \<Rightarrow> Inl TypeError
      | Inherited \<Rightarrow> Inr None
      | Own p \<Rightarrow>
          (let massSalt = Some salinity;
               massWater = fsub (lit 100) (Some salinity);
               molesSalt = fdiv massSalt (lit (molarMass p));
               molesWater = fdiv massWater (lit WATER_MOLAR_MASS)
           in if saltKey = ''MgCl2''
              then (let totalMoles = fadd molesWater (fmul (lit 3) molesSalt)
                    in Inr (fdiv (fmul (lit 4) molesSalt) totalMoles))
              else (let totalMoles = fadd molesWater (fmul (lit 2) molesSalt)
                    in Inr (fdiv (fmul (lit 2) molesSalt) totalMoles))))"

definition computeLnawFromX64 :: "real \<Rightarrow> real option" where
  "computeLnawFromX64 X =
     fadd (fadd (fmul (lit B1) (Some X)) (fmul (fmul (lit B2) (Some X)) (Some X)))
          (fmul (fmul (fmul (lit B3) (Some X)) (Some X)) (Some X))"

definition computeSalinityFromX64 :: "real \<Rightarrow> string \<Rightarrow> error + real option" where
  "computeSalinityFromX64 X saltKey =
     (case saltProps saltKey of
        Undefined \<Rightarrow> Inl TypeError
      | Inherited \<Rightarrow> Inr None
      | Own p \<Rightarrow>
          (if saltKey = ''MgCl2''
           then Inr (fdiv (fmul (fmul (lit (molarMass p)) (Some X)) (lit 100))
                          (fadd (fmul (fsub (lit 4) (fmul (lit 3) (Some X))) (lit WATER_MOLAR_MASS))
                                (fmul (lit (molarMass p)) (Some X))))
           else Inr (fdiv (fmul (fmul (lit (molarMass p)) (Some X)) (lit 100))
                          (fadd (fmul (fsub (lit 2) (fmul (lit 2) (Some X))) (lit WATER_MOLAR_MASS))
                                (fmul (lit (molarMass p)) (Some X))))))"

section \<open>Root finder\<close>

text \<open>
  \<open>solveXFromLnaw\<close>: the \<open>while\<close> loop that widens the bracket is \<open>expandHigh\<close>,
  the \<open>for\<close> loop of 50 halvings is \<open>bisect 50\<close>. Both are in the exact model:
  \<open>high + 0.1\<close> is an exact sum, so that a bracket that keeps widening stops at \<open>1\<close>
  (the binary64 running sum reaches \<open>0.9999999999999999\<close>, still below \<open>1\<close>, and
  stops one round later).
\<close>

function expandHigh :: "real \<Rightarrow> real \<Rightarrow> real" where
  "expandHigh lnawTarget high =
     (if computeLnawFromX high - lnawTarget > 0 \<and> high < 1
      then expandHigh lnawTarget (high + 0.1)
      else high)"
  by pat_completeness auto
termination
proof (relation "measure (\<lambda>(t, h). nat \<lceil>(1 - h) * 10\<rceil>)")
  show "wf (measure (\<lambda>(t, h). nat \<lceil>(1 - h) * 10\<rceil>))" by simp
next
  fix lnawTarget high :: real
  assume a: "0 < computeLnawFromX high - lnawTarget \<and> high < 1"
  have "(1 - (high + 0.1)) * 10 = (1 - high) * 10 - 1"
    by (simp add: algebra_simps)
  then have e: "\<lceil>(1 - (high + 0.1)) * 10\<rceil> = \<lceil>(1 - high) * 10\<rceil> - 1"
    by (simp only: ceiling_diff_one)
  from a have "0 < \<lceil>(1 - high) * 10\<rceil>" by simp
  with e show "((lnawTarget, high + 0.1), (lnawTarget, high))
                 \<in> measure (\<lambda>(t, h). nat \<lceil>(1 - h) * 10\<rceil>)"
    by simp
qed

fun bisect :: "nat \<Rightarrow> real \<Rightarrow> real \<Rightarrow> real \<Rightarrow> real \<times> real" where
  "bisect 0 lnawTarget low high = (low, high)"
| "bisect (Suc n) lnawTarget low high =
     (let mid = (low + high) / 2;
          val = computeLnawFromX mid - lnawTarget
      in if val > 0 then bisect n lnawTarget mid high
         else bisect n lnawTarget low mid)"

definition solveXFromLnaw :: "real \<Rightarrow> real" where
  "solveXFromLnaw lnawTarget =
     (let high = expandHigh lnawTarget 0.2;
          (low, high) = bisect 50 lnawTarget 0 high
      in (low + high) / 2)"

declare expandHigh.simps [simp del]

section \<open>Reference curve fit\<close>

text \<open>
  Arithmetic on possibly non-finite numbers: \<open>NaN\<close> is absorbing. Reading an array
  beyond its end gives \<open>undefined\<close>, which arithmetic turns into \<open>NaN\<close>.
\<close>

definition num2 :: "(real \<Rightarrow> real \<Rightarrow> real) \<Rightarrow> real option \<Rightarrow> real option \<Rightarrow> real option" where
  "num2 f a b = (case a of None \<Rightarrow> None | Some x \<Rightarrow> map_option (f x) b)"

definition numDiv :: "real option \<Rightarrow> real option \<Rightarrow> real option" where
  "numDiv a b = (case a of None \<Rightarrow> None
                 | Some x \<Rightarrow> (case b of None \<Rightarrow> None | Some y \<Rightarrow> jsDiv x y))"

definition numAt :: "real list \<Rightarrow> nat \<Rightarrow> real option" where
  "numAt xs i = (if i < length xs then Some (xs ! i) else None)"

definition optAt :: "real option list \<Rightarrow> nat \<Rightarrow> real option" where
  "optAt xs i = (if i < length xs then xs ! i else None)"

text \<open>
  \<open>fitPolynomial\<close>. \<open>S[i]\<close> is the sum of the \<open>i\<close>-th powers of the abscissas (the
  running product \<open>xp\<close> of the source), \<open>A[i][j] = S[i + j]\<close>, and
  \<open>b[i]\<close> is the sum of \<open>ys[k] * xs[k]^i\<close> over \<open>k < n\<close>.
\<close>

definition powerSums :: "real list \<Rightarrow> nat \<Rightarrow> real list" where
  "powerSums xs d = map (\<lambda>i. sum_list (map (\<lambda>x. x ^ i) xs)) [0..<2 * d + 1]"

definition normalMatrix :: "real list \<Rightarrow> nat \<Rightarrow> real list list" where
  "normalMatrix S d = map (\<lambda>i. map (\<lambda>j. S ! (i + j)) [0..<d + 1]) [0..<d + 1]"

definition rightHandSide :: "real list \<Rightarrow> real list \<Rightarrow> nat \<Rightarrow> real option list" where
  "rightHandSide xs ys d =
     map (\<lambda>i. fold (\<lambda>k acc. num2 (+) acc (map_option (\<lambda>y. y * xs ! k ^ i) (numAt ys k)))
                 [0..<length xs] (Some 0))
         [0..<d + 1]"

text \<open>
  \<open>const pivot = A[i][i] || 1e-12\<close>: zero is falsy. The fit is in the exact model, so
  the test is on the exact entry; either way the value of \<open>pivot\<close> is not zero.
\<close>

definition pivotOf :: "real \<Rightarrow> real" where
  "pivotOf a = (if a = 0 then 1 / 10 ^ 12 else a)"

definition findMaxRow :: "real list list \<Rightarrow> nat \<Rightarrow> nat \<Rightarrow> nat" where
  "findMaxRow A i d =
     fold (\<lambda>r maxRow. if \<bar>A ! r ! i\<bar> > \<bar>A ! maxRow ! i\<bar> then r else maxRow) [i + 1..<d + 1] i"

definition scaleFrom :: "nat \<Rightarrow> real \<Rightarrow> real list \<Rightarrow> real list" where
  "scaleFrom i pivot row =
     map (\<lambda>j. if i \<le> j then row ! j / pivot else row ! j) [0..<length row]"

definition elimRow :: "nat \<Rightarrow> real \<Rightarrow> real list \<Rightarrow> real list \<Rightarrow> real list" where
  "elimRow i f rowi row =
     map (\<lambda>j. if i \<le> j then row ! j - f * rowi ! j else row ! j) [0..<length row]"

text \<open>
  One round of the elimination loop for column \<open>i\<close>: choose the row of largest
  magnitude, swap it into place, divide row \<open>i\<close> and \<open>c[i]\<close> by the pivot, then clear
  column \<open>i\<close> in every other row. The source updates the rows \<open>r \<noteq> i\<close> one after the
  other in place; each of them reads only itself and row \<open>i\<close>, which that loop leaves
  alone, so the rows are written here as one \<open>map\<close>. The state carries, besides
  \<open>A\<close> and \<open>c\<close>, the list of the divisors used so far: each round appends its
  \<open>pivot\<close>, the one value by which that round divides.
\<close>

definition gaussStep ::
  "nat \<Rightarrow> nat \<Rightarrow> real list list \<times> real option list \<times> real list
     \<Rightarrow> real list list \<times> real option list \<times> real list" where
  "gaussStep d i Acd =
     (let A = fst Acd; c = fst (snd Acd); divisors = snd (snd Acd);
          maxRow = findMaxRow A i d;
          A1 = (if maxRow \<noteq> i then A[i := A ! maxRow, maxRow := A ! i] else A);
          c1 = (if maxRow \<noteq> i then c[i := c ! maxRow, maxRow := c ! i] else c);
          pivot = pivotOf (A1 ! i ! i);
          A2 = A1[i := scaleFrom i pivot (A1 ! i)];
          c2 = c1[i := map_option (\<lambda>v. v / pivot) (c1 ! i)];
          A3 = map (\<lambda>r. if r = i then A2 ! r else elimRow i (A2 ! r ! i) (A2 ! i) (A2 ! r))
                   [0..<d + 1];
          c3 = map (\<lambda>r. if r = i then c2 ! r
                          else num2 (\<lambda>cr ci. cr - A2 ! r ! i * ci) (c2 ! r) (c2 ! i))
                   [0..<d + 1]
      in (A3, c3, divisors @ [pivot]))"

text \<open>
  \<open>eliminate\<close> is the body of \<open>fitPolynomial\<close> once the arrays exist: it returns the
  solved \<open>c\<close> together with the divisors of the rounds. \<open>fitPolynomial\<close> returns
  \<open>c\<close>; \<open>fitDivisors\<close> reads off the divisors of the same run.
\<close>

definition eliminate :: "real list \<Rightarrow> real list \<Rightarrow> nat \<Rightarrow> real option list \<times> real list" where
  "eliminate xs ys d =
     (let S = powerSums xs d;
          A = normalMatrix S d;
          b = rightHandSide xs ys d
      in snd (fold (gaussStep d) [0..<d + 1] (A, b, [])))"

definition fitPolynomial :: "real list \<Rightarrow> real list \<Rightarrow> int \<Rightarrow> error + real option list" where
  "fitPolynomial xs ys degree =
     (let n = int (length xs);
          d = min degree (n - 1)
      in if 2 * d + 1 < 0 then Inl RangeError
         else Inr (fst (eliminate xs ys (nat d))))"

definition fitDivisors :: "real list \<Rightarrow> real list \<Rightarrow> int \<Rightarrow> real list" where
  "fitDivisors xs ys degree =
     (let n = int (length xs);
          d = min degree (n - 1)
      in if 2 * d + 1 < 0 then [] else snd (eliminate xs ys (nat d)))"

fun evalPolynomialLoop :: "real option list \<Rightarrow> real \<Rightarrow> real option \<Rightarrow> real \<Rightarrow> real option" where
  "evalPolynomialLoop [] x y xp = y"
| "evalPolynomialLoop (c # coeffs) x y xp =
     evalPolynomialLoop coeffs x (num2 (+) y (map_option (\<lambda>v. v * xp) c)) (xp * x)"

definition evalPolynomial :: "real option list \<Rightarrow> real \<Rightarrow> real option" where
  "evalPolynomial coeffs x = evalPolynomialLoop coeffs x (Some 0) 1"

text \<open>
  The monotone spline. A secant over a zero-width segment is non-finite in the
  source; the model records \<open>None\<close> for it and for everything computed from it
  (an infinite secant is not followed further). With one knot every read of \<open>h\<close> and
  \<open>delta\<close> is \<open>undefined\<close> and the single derivative is \<open>NaN\<close>; with no knot
  \<open>new Array(n - 1)\<close> throws a \<open>RangeError\<close>.
\<close>

record spline =
  sx :: "real list"
  sy :: "real list"
  sh :: "real list"
  sd :: "real option list"

definition clipEnd :: "real option \<Rightarrow> real option \<Rightarrow> real option" where
  "clipEnd d0 delta0 =
     (case d0 of None \<Rightarrow> None
      | Some dv \<Rightarrow> (case delta0 of None \<Rightarrow> None
          | Some dl \<Rightarrow> if dv * dl \<le> 0 then Some 0
                       else if \<bar>dv\<bar> > 3 * \<bar>dl\<bar> then Some (3 * dl) else Some dv))"

definition interiorSlope :: "real list \<Rightarrow> real option list \<Rightarrow> nat \<Rightarrow> real option" where
  "interiorSlope h delta i =
     (case delta ! (i - 1) of None \<Rightarrow> None
      | Some a \<Rightarrow> (case delta ! i of None \<Rightarrow> None
          | Some b \<Rightarrow> if a * b \<le> 0 then Some 0
                      else (let w1 = 2 * h ! i + h ! (i - 1);
                                w2 = h ! i + 2 * h ! (i - 1)
                            in numDiv (Some (w1 + w2))
                                 (num2 (+) (jsDiv w1 a) (jsDiv w2 b)))))"

definition endSlope :: "real \<Rightarrow> real \<Rightarrow> real option \<Rightarrow> real option \<Rightarrow> real option" where
  "endSlope ha hb da db =
     numDiv (num2 (-) (num2 (*) (Some (2 * ha + hb)) da) (num2 (*) (Some ha) db))
            (Some (ha + hb))"

definition buildMonotoneSpline :: "real list \<Rightarrow> real list \<Rightarrow> error + spline" where
  "buildMonotoneSpline x y =
     (let n = length x;
          h = map (\<lambda>i. x ! (i + 1) - x ! i) [0..<n - 1];
          delta = map (\<lambda>i. numDiv (num2 (-) (numAt y (i + 1)) (numAt y i)) (Some (h ! i)))
                      [0..<n - 1];
          d = (if n = 2 then [delta ! 0, delta ! 0]
               else if n < 2 then replicate n None
               else (let d0 = endSlope (h ! 0) (h ! 1) (delta ! 0) (delta ! 1);
                         dn = endSlope (h ! (n - 2)) (h ! (n - 3))
                                       (delta ! (n - 2)) (delta ! (n - 3))
                     in [clipEnd d0 (delta ! 0)]
                        @ map (interiorSlope h delta) [1..<n - 1]
                        @ [clipEnd dn (delta ! (n - 2))]))
      in if n = 0 then Inl RangeError else Inr \<lparr>sx = x, sy = y, sh = h, sd = d\<rparr>)"

text \<open>The \<open>while\<close> loop of \<open>evalMonotoneSpline\<close> that finds the bracketing segment.\<close>

function findSegment :: "real list \<Rightarrow> real \<Rightarrow> nat \<Rightarrow> nat" where
  "findSegment x xp i =
     (if i < length x - 1 \<and> xp > x ! (i + 1) then findSegment x xp (i + 1) else i)"
  by pat_completeness auto
termination
  by (relation "measure (\<lambda>(x, xp, i). length x - 1 - i)") auto

declare findSegment.simps [simp del]

definition evalMonotoneSpline :: "spline \<Rightarrow> real \<Rightarrow> real option" where
  "evalMonotoneSpline s xp =
     (let x = sx s; y = sy s; h = sh s; d = sd s; n = length x
      in if x = [] then None
         else if xp \<le> x ! 0 then numAt y 0
         else if xp \<ge> x ! (n - 1) then numAt y (n - 1)
         else (let i = findSegment x xp 0;
                   t = numDiv (Some (xp - x ! i)) (numAt h i);
                   one = Some 1;
                   h00 = num2 (*) (num2 (*) (num2 (+) one (num2 (*) (Some 2) t)) (num2 (-) one t))
                                  (num2 (-) one t);
                   h10 = num2 (*) (num2 (*) t (num2 (-) one t)) (num2 (-) one t);
                   h01 = num2 (*) (num2 (*) t t) (num2 (-) (Some 3) (num2 (*) (Some 2) t));
                   h11 = num2 (*) (num2 (*) t t) (num2 (-) t one)
               in num2 (+)
                    (num2 (+)
                       (num2 (+) (num2 (*) h00 (numAt y i))
                                 (num2 (*) (num2 (*) h10 (numAt h i)) (optAt d i)))
                       (num2 (*) h01 (numAt y (i + 1))))
                    (num2 (*) (num2 (*) h11 (numAt h i)) (optAt d (i + 1)))))"

section \<open>Gases, page state and the fit caches\<close>

text \<open>
  A gas object: \<open>struct\<close> is the field \<open>structure\<close>, \<open>betaX\<close> may be \<open>NaN\<close> for the
  custom gas, \<open>data\<close> and \<open>t0_atm\<close> are absent (\<open>undefined\<close>) for some gases. Points are
  pairs (temperature, pressure). The overlay table \<open>ts_data\<close> of CP is not read by
  the engine.
\<close>

record gas =
  struct :: string
  betaX :: "real option"
  data :: "(real \<times> real) list option"
  t0_atm :: "real option"

definition gasData :: "string \<Rightarrow> gas property" where
  "gasData key =
     (if key = ''CH4'' then Own \<lparr>struct = ''sI'', betaX = Some (- 0.9115),
        data = Some [(273.4, 2.68), (274.6, 3.05), (276.7, 3.72), (278.3, 4.39),
                     (279.6, 5.02), (280.9, 5.77), (282.3, 6.65), (283.6, 7.59),
                     (284.7, 8.55), (285.7, 9.17), (286.4, 10.5)],
        t0_atm = None\<rparr>
      else if key = ''C2H6'' then Own \<lparr>struct = ''sI'', betaX = Some (- 0.8657),
        data = Some [(273.7055556, 0.51021204), (274.8166667, 0.579159613),
                     (275.9277778, 0.661896701), (277.5944444, 0.813581361),
                     (278.7055556, 0.930792236), (279.2611111, 1.006634566),
                     (279.8166667, 1.082476896), (280.3722222, 1.165213984),
                     (280.9277778, 1.254845829), (281.4833333, 1.344477674),
                     (282.0388889, 1.447899033), (282.5944444, 1.55821515),
                     (283.15, 1.689215539), (284.2611111, 1.985690102),
                     (285.3722222, 2.302848938), (286.4833333, 2.730323891)],
        t0_atm = None\<rparr>
      else if key = ''C3H8'' then Own \<lparr>struct = ''sII'', betaX = Some (- 1.0582),
        data = Some [(273.6, 0.207), (274.6, 0.248), (276.2, 0.338), (277.2, 0.417),
                     (278.0, 0.51)],
        t0_atm = None\<rparr>
      else if key = ''CO2'' then Own \<lparr>struct = ''sI'', betaX = Some (- 0.9143),
        data = Some [(274.3, 1.42), (275.5, 1.63), (276.8, 1.9), (277.6, 2.11),
                     (279.1, 2.55), (280.6, 3.12), (281.5, 3.51), (282.1, 3.81),
                     (282.9, 4.37)],
        t0_atm = None\<rparr>
      else if key = ''CP'' then Own \<lparr>struct = ''sII'', betaX = Some (- 1.2426),
        data = None, t0_atm = Some 280.15\<rparr>
      else if key \<in> set objectPrototypeNames then Inherited
      else Undefined)"

text \<open>
  The part of the page the engine reads. A parsed number field is a finite number or
  \<open>NaN\<close> (\<open>None\<close>); \<open>customBetaX\<close> is the parsed field (with its default \<open>-1.0\<close> when
  empty), \<open>customTPData\<close> the points \<open>getCustomDataPoints\<close> returns, \<open>siiAlphaToggle\<close>
  whether the toggle exists and is checked, \<open>t0FitMethodSelect\<close> the selected method
  when the element exists.
\<close>

record page =
  gasSelect :: string
  saltSelect :: string
  salinityInput :: "real option"
  pressureInput :: "real option"
  dTminInput :: "real option"
  dTmaxInput :: "real option"
  siiAlphaToggle :: bool
  t0FitMethodSelect :: "string option"
  customStructure :: string
  customBetaX :: "real option"
  customTPData :: "(real \<times> real) list"

definition getGasObject :: "page \<Rightarrow> string \<Rightarrow> gas property" where
  "getGasObject pg gasKey =
     (if gasKey = ''Custom''
      then Own \<lparr>struct = (if customStructure pg = [] then ''sI'' else customStructure pg),
                betaX = customBetaX pg,
                data = Some (customTPData pg),
                t0_atm = None\<rparr>
      else gasData gasKey)"

text \<open>
  The two process-wide caches: \<open>t0FitCache\<close> for polynomial fits and
  \<open>getT0AtPressure._splineCache\<close> for splines, both keyed by the gas key. Only keys
  of gases that carry points are ever looked up in them.
\<close>

record caches =
  t0FitCache :: "string \<rightharpoonup> real option list"
  splineCache :: "string \<rightharpoonup> spline"

definition getT0AtPressure ::
  "page \<Rightarrow> caches \<Rightarrow> string \<Rightarrow> real \<Rightarrow> string \<Rightarrow> (error + real option) \<times> caches" where
  "getT0AtPressure pg cs gasKey P method =
     (case getGasObject pg gasKey of
        Undefined \<Rightarrow> (Inr None, cs)
      | Inherited \<Rightarrow> (Inr None, cs)
      | Own g \<Rightarrow>
          if gasKey = ''CP'' then (Inr (t0_atm g), cs)
          else (let pts = (case data g of None \<Rightarrow> [] | Some ps \<Rightarrow> ps)
                in if pts = [] then (Inr None, cs)
                   else (let methodSel =
                               (if method \<noteq> [] then method
                                else (case t0FitMethodSelect pg of
                                        Some v \<Rightarrow> v | None \<Rightarrow> ''poly''));
                             xs = map snd pts;
                             ys = map fst pts
                         in if methodSel = ''spline''
                            then (case splineCache cs gasKey of
                                    Some sp \<Rightarrow> (Inr (evalMonotoneSpline sp P), cs)
                                  | None \<Rightarrow>
                                      (case buildMonotoneSpline xs ys of
                                         Inl e \<Rightarrow> (Inl e, cs)
                                       | Inr sp \<Rightarrow>
                                           (Inr (evalMonotoneSpline sp P),
                                            cs\<lparr>splineCache := (splineCache cs)(gasKey \<mapsto> sp)\<rparr>)))
                            else (case t0FitCache cs gasKey of
                                    Some co \<Rightarrow> (Inr (evalPolynomial co P), cs)
                                  | None \<Rightarrow>
                                      (let deg = min 3 (int (length xs) - 1)
                                       in (case fitPolynomial xs ys deg of
                                            Inl e \<Rightarrow> (Inl e, cs)
                                          | Inr co \<Rightarrow>
                                              (Inr (evalPolynomial co P),
                                               cs\<lparr>t0FitCache := (t0FitCache cs)(gasKey \<mapsto> co)\<rparr>)))))))"

definition computeBetaCustom :: "page \<Rightarrow> string \<Rightarrow> bool \<Rightarrow> error + real option" where
  "computeBetaCustom pg gasKey useAlphaFlag =
     (case getGasObject pg gasKey of
        Undefined \<Rightarrow> Inl TypeError
      | Inherited \<Rightarrow> Inr None
      | Own g \<Rightarrow>
          (let betaBase = map_option (\<lambda>b. b * (1 / 10 ^ 3)) (betaX g);
               alpha = (if struct g = ''sII'' \<and> useAlphaFlag then ALPHA_SII else 1)
           in Inr (map_option (\<lambda>b. b * alpha) betaBase)))"

definition computeBeta :: "page \<Rightarrow> string \<Rightarrow> error + real option" where
  "computeBeta pg gasKey =
     (case getGasObject pg gasKey of
        Undefined \<Rightarrow> Inl TypeError
      | Inherited \<Rightarrow> Inr None
      | Own g \<Rightarrow>
          (let betaBase = map_option (\<lambda>b. b * (1 / 10 ^ 3)) (betaX g);
               useAlpha = siiAlphaToggle pg;
               alpha = (if struct g = ''sII'' \<and> useAlpha then ALPHA_SII else 1)
           in Inr (map_option (\<lambda>b. b * alpha) betaBase)))"

section \<open>The one-dimensional sweep\<close>

text \<open>
  One entry of the parallel result arrays of the click handler. \<open>tmax\<close> is
  \<open>T0_op - dT_total\<close>.
\<close>

record sweepPoint =
  dT_extra :: real
  mas :: real
  mwy :: "real option"
  salinityMol :: "real option"
  xValue :: real
  lnawValue :: real
  dtT0T :: "real option"
  thls :: "real option"
  tmax :: real
  naclG :: real
  waterG :: real
  waterSolutionG :: real
  waterHydrateG :: real
  maxPureWaterYield :: "real option"

text \<open>
  The body of the \<open>for\<close> loop for one \<open>dT_extra\<close>; \<open>Inr None\<close> is \<open>continue\<close>. When
  \<open>beta\<close> or \<open>dT_init_op\<close> is not finite, \<open>dT_total\<close> is not finite either: it is then
  either \<open>+Infinity\<close>, which the first test skips, or it makes \<open>lnawMas\<close> \<open>NaN\<close>, which
  the second test skips.
\<close>

definition sweepStep ::
  "real option \<Rightarrow> real \<Rightarrow> real option \<Rightarrow> string \<Rightarrow> real \<Rightarrow> real \<Rightarrow> error + sweepPoint option" where
  "sweepStep beta T0_op dT_init_op saltKey initialSalinity dT_extra' =
     (case beta of None \<Rightarrow> Inr None | Some b \<Rightarrow>
     (case dT_init_op of None \<Rightarrow> Inr None | Some dT_init \<Rightarrow>
        (let initialNaClG = initialSalinity;
             initialWaterG = 100 - initialNaClG;
             dT_total = dT_init + dT_extra'
         in if dT_total \<ge> T0_op then Inr None
            else (case computeLnawFromDelta b dT_total T0_op of
                   None \<Rightarrow> Inr None
                 | Some lnawMas \<Rightarrow>
                     if lnawMas \<ge> 0 then Inr None
                     else (let X_mas = solveXFromLnaw lnawMas
                           in (case computeSalinityFromX X_mas saltKey of
                                Inl e \<Rightarrow> Inl e
                              | Inr None \<Rightarrow> Inr None
                              | Inr (Some mas') \<Rightarrow>
                                  if mas' \<le> 0 then Inr None
                                  else (let totalWaterInSolutionTmp = initialNaClG * (100 / mas' - 1);
                                            waterInHydrateTmp = initialWaterG - totalWaterInSolutionTmp;
                                            mwy' = map_option (\<lambda>q. q * 100)
                                                     (jsDiv waterInHydrateTmp initialWaterG);
                                            salinityMol' =
                                              (case saltProps saltKey of
                                                 Own p \<Rightarrow>
                                                   (let molesNaCl = initialNaClG / molarMass p;
                                                        molesWater = initialWaterG / WATER_MOLAR_MASS;
                                                        totalMolesIons =
                                                          real (ionCount p) * molesNaCl + molesWater
                                                    in map_option (\<lambda>q. q * 100)
                                                         (jsDiv (real (ionCount p) * molesNaCl)
                                                                totalMolesIons))
                                               | _ \<Rightarrow> None);
                                            dtT0T' = jsDiv dT_total (T0_op * (T0_op - dT_total));
                                            thls' = (case dtT0T' of None \<Rightarrow> None
                                                     | Some q \<Rightarrow>
                                                         map_option (\<lambda>r. T0_op * r)
                                                           (jsDiv 1 (1 + q * T0_op)));
                                            finalNaClG = initialNaClG;
                                            totalWaterNeeded = finalNaClG / mas' * 100 - finalNaClG;
                                            waterInSolution = totalWaterNeeded;
                                            waterInHydrate = initialWaterG - waterInSolution
                                        in Inr (Some \<lparr>dT_extra = dT_extra', mas = mas', mwy = mwy',
                                              salinityMol = salinityMol', xValue = X_mas,
                                              lnawValue = lnawMas, dtT0T = dtT0T', thls = thls',
                                              tmax = T0_op - dT_total, naclG = finalNaClG,
                                              waterG = initialWaterG,
                                              waterSolutionG = waterInSolution,
                                              waterHydrateG = waterInHydrate,
                                              maxPureWaterYield =
                                                map_option (\<lambda>q. q * 100)
                                                  (jsDiv waterInHydrate initialWaterG)\<rparr>))))))))"

fun sweepLoop :: "(real \<Rightarrow> error + sweepPoint option) \<Rightarrow> real list \<Rightarrow> error + sweepPoint list" where
  "sweepLoop body [] = Inr []"
| "sweepLoop body (e # es) =
     (case body e of
        Inl err \<Rightarrow> Inl err
      | Inr None \<Rightarrow> sweepLoop body es
      | Inr (Some p) \<Rightarrow>
          (case sweepLoop body es of Inl err \<Rightarrow> Inl err | Inr ps \<Rightarrow> Inr (p # ps)))"

definition nPoints :: nat where "nPoints = 50"

definition sweepSteps :: "real \<Rightarrow> real \<Rightarrow> real list" where
  "sweepSteps dTmin dTmax =
     (let step = (dTmax - dTmin) / (real nPoints - 1)
      in map (\<lambda>i. dTmin + step * real i) [0..<nPoints])"

record sweepResult =
  points :: "sweepPoint list"
  masMax :: real
  mwyMax :: "real option"
  dtExtraMax :: real

text \<open>
  The loop and what follows it: an empty result raises the alert that no
  calculation is possible under the entered conditions (\<open>NoFeasiblePoints\<close>);
  otherwise the last point gives the headline values.
\<close>

definition sweep ::
  "real option \<Rightarrow> real \<Rightarrow> real option \<Rightarrow> string \<Rightarrow> real \<Rightarrow> real \<Rightarrow> real \<Rightarrow> error + sweepResult" where
  "sweep beta T0_op dT_init_op saltKey initialSalinity dTmin dTmax =
     (case sweepLoop (sweepStep beta T0_op dT_init_op saltKey initialSalinity)
                     (sweepSteps dTmin dTmax) of
        Inl err \<Rightarrow> Inl err
      | Inr ps \<Rightarrow>
          if length ps = 0 then Inl NoFeasiblePoints
          else Inr \<lparr>points = ps, masMax = mas (last ps), mwyMax = mwy (last ps),
                    dtExtraMax = dT_extra (last ps)\<rparr>)"

text \<open>The click handler of \<open>calculateBtn\<close>, up to the point where it stores and draws.\<close>

definition calculateBtn_click :: "page \<Rightarrow> caches \<Rightarrow> (error + sweepResult) \<times> caches" where
  "calculateBtn_click pg cs =
     (let gasKey = gasSelect pg;
          saltKey = saltSelect pg;
          pressure = (if gasKey = ''CP'' then Some (1 / 10) else pressureInput pg)
      in (case salinityInput pg of None \<Rightarrow> (Inl InvalidInputs, cs) | Some initialSalinity \<Rightarrow>
         (case pressure of None \<Rightarrow> (Inl InvalidInputs, cs) | Some pressure' \<Rightarrow>
         (case dTminInput pg of None \<Rightarrow> (Inl InvalidInputs, cs) | Some dTmin0 \<Rightarrow>
         (case dTmaxInput pg of None \<Rightarrow> (Inl InvalidInputs, cs) | Some dTmax0 \<Rightarrow>
           (let dTmin = (if dTmin0 > dTmax0 then dTmax0 else dTmin0);
                dTmax = (if dTmin0 > dTmax0 then dTmin0 else dTmax0)
            in (case computeBeta pg gasKey of
                 Inl err \<Rightarrow> (Inl err, cs)
               | Inr beta \<Rightarrow>
                   (let methodMain = (case t0FitMethodSelect pg of
                                        Some v \<Rightarrow> v | None \<Rightarrow> ''poly'')
                    in (case getT0AtPressure pg cs gasKey pressure' methodMain of
                         (Inl err, cs') \<Rightarrow> (Inl err, cs')
                       | (Inr None, cs') \<Rightarrow> (Inl NoReferenceData, cs')
                       | (Inr (Some T0_op), cs') \<Rightarrow>
                           (case computeXFromSalinity initialSalinity saltKey of
                              Inl err \<Rightarrow> (Inl err, cs')
                            | Inr X_init \<Rightarrow>
                                (let lnaw_init = map_option computeLnawFromX X_init;
                                     dT_init_op =
                                       (case beta of None \<Rightarrow> None | Some b \<Rightarrow>
                                        (case lnaw_init of None \<Rightarrow> None
                                         | Some l \<Rightarrow> computeDeltaT b l T0_op))
                                 in (sweep beta T0_op dT_init_op saltKey initialSalinity
                                       dTmin dTmax, cs'))))))))))))"

section \<open>The two-dimensional sweep\<close>

text \<open>
  One cell of \<open>generateParametricHeatmaps\<close>: the body of the inner loop for the
  initial salinity \<open>sInit\<close> (whose \<open>dT_init_op\<close> the outer loop computed) and the
  formation temperature \<open>Tform\<close>. A \<open>NaN\<close> among \<open>beta\<close>, \<open>T0_op\<close> and \<open>dT_init_op\<close>
  makes the test of the window false, which leaves the defaults. (An infinite
  \<open>dT_init_op\<close>, which needs \<open>1 + beta lnaw T0\<close> to vanish exactly, is not told
  apart from \<open>NaN\<close>.)
\<close>

record cell =
  cx :: real
  cy :: real
  mwyVal :: real
  masVal :: real
  masIncr :: real
  masNormRaw :: real
  masNorm :: real

definition clamp01 :: "real \<Rightarrow> real" where
  "clamp01 v = max 0 (min 1 v)"

definition heatmapCell ::
  "real option \<Rightarrow> real option \<Rightarrow> real option \<Rightarrow> string \<Rightarrow> real \<Rightarrow> real \<Rightarrow> real \<Rightarrow> real
     \<Rightarrow> error + cell" where
  "heatmapCell beta T0_op' dT_init_op' saltKey masMinNorm normRange sInit Tform =
     (let finish = (\<lambda>mwyVal' masVal' masIncr'.
            (let headroom = max 0 (100 - sInit);
                 masNormRaw' = (if headroom > 0 then clamp01 (masIncr' / headroom) else 0);
                 masNorm' = clamp01 ((masNormRaw' - masMinNorm) / normRange)
             in Inr \<lparr>cx = sInit, cy = Tform, mwyVal = mwyVal', masVal = masVal',
                      masIncr = masIncr', masNormRaw = masNormRaw', masNorm = masNorm'\<rparr>));
          skip = finish 0 sInit 0
      in (case beta of None \<Rightarrow> skip | Some b \<Rightarrow>
         (case T0_op' of None \<Rightarrow> skip | Some T0_op \<Rightarrow>
         (case dT_init_op' of None \<Rightarrow> skip | Some dT_init_op \<Rightarrow>
           (let dT_total = max 0 (T0_op - Tform)
            in if dT_total \<ge> dT_init_op \<and> dT_total < T0_op
               then (case computeLnawFromDelta b dT_total T0_op of
                       None \<Rightarrow> skip
                     | Some lnawMas \<Rightarrow>
                         if lnawMas < 0
                         then (let X_mas = solveXFromLnaw lnawMas
                               in (case computeSalinityFromX X_mas saltKey of
                                    Inl e \<Rightarrow> Inl e
                                  | Inr None \<Rightarrow> skip
                                  | Inr (Some mas') \<Rightarrow>
                                      if mas' > 0
                                      then (let mwy' = (mas' - sInit) / mas' * 100
                                            in finish (max 0 (min 100 mwy')) mas'
                                                      (max 0 (mas' - sInit)))
                                      else skip))
                         else skip)
               else skip)))))"

text \<open>
  The outer loop body: \<open>dT_init_op\<close> of one initial salinity, then the cells of its
  column. \<open>normRange\<close> is the source's \<open>range\<close>, \<open>max 1e-12 (masMaxNorm - masMinNorm)\<close>.
\<close>

fun heatmapCells :: "(real \<Rightarrow> error + cell) \<Rightarrow> real list \<Rightarrow> error + cell list" where
  "heatmapCells body [] = Inr []"
| "heatmapCells body (Tform # temps) =
     (case body Tform of
        Inl err \<Rightarrow> Inl err
      | Inr c \<Rightarrow> (case heatmapCells body temps of Inl err \<Rightarrow> Inl err | Inr cs \<Rightarrow> Inr (c # cs)))"

definition heatmapColumn ::
  "real option \<Rightarrow> real option \<Rightarrow> string \<Rightarrow> real \<Rightarrow> real \<Rightarrow> real list \<Rightarrow> real \<Rightarrow> error + cell list" where
  "heatmapColumn beta T0_op saltKey masMinNorm normRange temps sInit =
     (case computeXFromSalinity sInit saltKey of
        Inl err \<Rightarrow> Inl err
      | Inr X_init \<Rightarrow>
          (let lnaw_init = map_option computeLnawFromX X_init;
               dT_init_op =
                 (case beta of None \<Rightarrow> None | Some b \<Rightarrow>
                  (case T0_op of None \<Rightarrow> None | Some T0 \<Rightarrow>
                  (case lnaw_init of None \<Rightarrow> None | Some l \<Rightarrow> computeDeltaT b l T0)))
           in heatmapCells (heatmapCell beta T0_op dT_init_op saltKey masMinNorm normRange sInit)
                temps))"

text \<open>
  The mass balance in the words of the specification, for a basis of 100 g:
  \<open>saltGrams = initialSalinity\<close>, \<open>waterGrams = 100 - initialSalinity\<close>,
  \<open>totalWaterNeeded = saltGrams (100 / MAS - 1)\<close>,
  \<open>waterInHydrate = waterGrams - totalWaterNeeded\<close>,
  \<open>MWY = (waterInHydrate / waterGrams) 100\<close>.
\<close>

definition massBalanceMWY :: "real \<Rightarrow> real \<Rightarrow> real option" where
  "massBalanceMWY initialSalinity MAS =
     (let saltGrams = initialSalinity;
          waterGrams = 100 - initialSalinity;
          totalWaterNeeded = saltGrams * (100 / MAS - 1);
          waterInHydrate = waterGrams - totalWaterNeeded
      in map_option (\<lambda>q. q * 100) (jsDiv waterInHydrate waterGrams))"

text \<open>
  The emission rule of the one-dimensional sweep in the words of the specification:
  a step is kept when its total supercooling is below \<open>T0\<close>, the inverse \<open>ln aw\<close> is
  finite and negative, and the resulting MAS is finite and positive.
\<close>

definition stepFeasible :: "real option \<Rightarrow> real \<Rightarrow> real option \<Rightarrow> string \<Rightarrow> real \<Rightarrow> bool" where
  "stepFeasible beta T0 initialSupercooling saltKey extra =
     (case beta of None \<Rightarrow> False | Some b \<Rightarrow>
     (case initialSupercooling of None \<Rightarrow> False | Some d \<Rightarrow>
        (let totalSupercooling = d + extra
         in totalSupercooling < T0
            \<and> (case computeLnawFromDelta b totalSupercooling T0 of
                  None \<Rightarrow> False
                | Some lnaw \<Rightarrow>
                    lnaw < 0
                    \<and> (case computeSalinityFromX (solveXFromLnaw lnaw) saltKey of
                          Inr (Some MAS) \<Rightarrow> 0 < MAS
                        | _ \<Rightarrow> False)))))"

section \<open>Example inputs\<close>

text \<open>
  A fresh session has empty caches. \<open>pgCP\<close> is a page that selects cyclopentane and
  NaCl at 8 wt% with the supercooling range \<open>[-1, 5]\<close>; \<open>pgCustom pts\<close> selects the
  custom gas with the points \<open>pts\<close> typed into its data field.
\<close>

definition noCaches :: caches where
  "noCaches = \<lparr>t0FitCache = Map.empty, splineCache = Map.empty\<rparr>"

definition pgCP :: page where
  "pgCP = \<lparr>gasSelect = ''CP'', saltSelect = ''NaCl'', salinityInput = Some 8,
     pressureInput = Some 0.1, dTminInput = Some (- 1), dTmaxInput = Some 5,
     siiAlphaToggle = False, t0FitMethodSelect = Some ''poly'', customStructure = [],
     customBetaX = Some (- 1), customTPData = []\<rparr>"

definition pgCustom :: "(real \<times> real) list \<Rightarrow> page" where
  "pgCustom pts = \<lparr>gasSelect = ''Custom'', saltSelect = ''NaCl'', salinityInput = Some 8,
     pressureInput = Some 5, dTminInput = Some 0.5, dTmaxInput = Some 5,
     siiAlphaToggle = False, t0FitMethodSelect = Some ''poly'', customStructure = ''sI'',
     customBetaX = Some (- 1), customTPData = pts\<rparr>"

section \<open>Binary64 rounding\<close>

lemma rne_error: "\<bar>of_int (rne y) - y\<bar> \<le> 1 / 2"
  unfolding rne_def Let_def by (auto simp: abs_le_iff)

lemma rne_zero: "\<bar>y\<bar> \<le> 1 / 2 \<Longrightarrow> rne y = 0"
proof -
  assume a: "\<bar>y\<bar> \<le> 1 / 2"
  consider "0 \<le> y" "y < 1 / 2" | "y = 1 / 2" | "y < 0" "- 1 / 2 < y" | "y = - 1 / 2"
    using a by fastforce
  then show ?thesis
  proof cases
    case 1
    then have "\<lfloor>y\<rfloor> = 0" by (simp add: floor_eq_iff)
    with 1 show ?thesis by (simp add: rne_def)
  next
    case 2
    then have "\<lfloor>y\<rfloor> = 0" by (simp add: floor_eq_iff)
    with 2 show ?thesis by (simp add: rne_def)
  next
    case 3
    then have "\<lfloor>y\<rfloor> = - 1" by (simp add: floor_eq_iff)
    with 3 show ?thesis by (simp add: rne_def)
  next
    case 4
    then have "\<lfloor>y\<rfloor> = - 1" by (simp add: floor_eq_iff)
    with 4 show ?thesis by (simp add: rne_def)
  qed
qed

lemma expo_ge: "- 1022 \<le> expo x"
  by (simp add: expo_def)

lemma expo_normal:
  assumes "2 powi (- 1022) \<le> \<bar>x\<bar>"
  shows "2 powi expo x \<le> \<bar>x\<bar>" and "\<bar>x\<bar> < 2 powi (expo x + 1)"
proof -
  define a where "a = \<bar>x\<bar>"
  have a0: "0 < a" using assms by (simp add: a_def)
  define e where "e = (if 1 \<le> a then bitlen \<lfloor>a\<rfloor> - 1 else - bitlen (\<lceil>1 / a\<rceil> - 1))"
  have b: "2 powi e \<le> a \<and> a < 2 powi (e + 1)"
  proof (cases "1 \<le> a")
    case True
    define n where "n = \<lfloor>a\<rfloor>"
    have n: "1 \<le> n" using True by (simp add: n_def)
    define k where "k = bitlen n"
    from bitlen_bounds [of n] n have kb: "2 ^ nat (k - 1) \<le> n" "n < 2 ^ nat k"
      by (simp_all add: k_def)
    have k1: "1 \<le> k" using n by (simp add: k_def bitlen_alt_def)
    have e: "e = k - 1" using True by (simp add: e_def k_def n_def)
    have "(2::real) powi e = 2 ^ nat (k - 1)" using k1 by (simp add: e power_int_def)
    also have "\<dots> \<le> real_of_int n" using kb(1) by (metis of_int_le_iff of_int_numeral of_int_power)
    also have "\<dots> \<le> a" by (simp add: n_def)
    finally have lo: "2 powi e \<le> a" .
    have "n + 1 \<le> 2 ^ nat k" using kb(2) by simp
    then have "real_of_int (n + 1) \<le> 2 ^ nat k"
      by (metis of_int_le_iff of_int_numeral of_int_power)
    moreover have "a < real_of_int (n + 1)" by (simp add: n_def)
    ultimately have "a < 2 ^ nat k" by linarith
    also have "\<dots> = 2 powi (e + 1)" using k1 by (simp add: e power_int_def)
    finally show ?thesis using lo by simp
  next
    case False
    define y where "y = 1 / a"
    have y1: "1 < y" using False a0 by (simp add: y_def)
    define m where "m = \<lceil>y\<rceil>"
    have m2: "2 \<le> m" using y1 by (simp add: m_def)
    define k where "k = bitlen (m - 1)"
    from bitlen_bounds [of "m - 1"] m2 have kb: "2 ^ nat (k - 1) \<le> m - 1" "m - 1 < 2 ^ nat k"
      by (simp_all add: k_def)
    have k1: "1 \<le> k" using m2 by (simp add: k_def bitlen_alt_def)
    have e: "e = - k" using False by (simp add: e_def k_def m_def y_def)
    have "m \<le> 2 ^ nat k" using kb(2) by simp
    then have "real_of_int m \<le> 2 ^ nat k"
      by (metis of_int_le_iff of_int_numeral of_int_power)
    moreover have "y \<le> real_of_int m" by (simp add: m_def)
    ultimately have yk: "y \<le> 2 ^ nat k" by linarith
    have "real_of_int (2 ^ nat (k - 1)) \<le> real_of_int (m - 1)" using kb(1) by linarith
    moreover have "real_of_int (m - 1) < y" by (simp add: m_def) linarith
    ultimately have ky: "2 ^ nat (k - 1) < y" by simp
    have "(2::real) powi e = 1 / 2 ^ nat k"
      using k1 by (simp add: e power_int_def power_one_over inverse_eq_divide)
    also have "\<dots> \<le> 1 / y" using yk y1 by (simp add: frac_le)
    also have "\<dots> = a" by (simp add: y_def)
    finally have lo: "2 powi e \<le> a" .
    have "a = 1 / y" by (simp add: y_def)
    also have "\<dots> < 1 / 2 ^ nat (k - 1)" using ky by (simp add: frac_less2)
    also have "\<dots> = 2 powi (e + 1)"
    proof (cases "k = 1")
      case True
      then show ?thesis by (simp add: e)
    next
      case False
      with k1 have "nat (- (1 - k)) = nat (k - 1)" "\<not> 0 \<le> 1 - k" by simp_all
      then show ?thesis
        by (simp add: e power_int_def power_one_over inverse_eq_divide)
    qed
    finally show ?thesis using lo by simp
  qed
  have "- 1022 \<le> e"
  proof (rule ccontr)
    assume "\<not> - 1022 \<le> e"
    then have "e + 1 \<le> - 1022" by simp
    then have "(2::real) powi (e + 1) \<le> 2 powi (- 1022)"
      by (intro power_int_increasing) simp_all
    with b assms show False by (simp add: a_def)
  qed
  moreover have "expo x = max (- 1022) e" by (simp add: expo_def e_def a_def)
  ultimately have "expo x = e" by simp
  with b show "2 powi expo x \<le> \<bar>x\<bar>" and "\<bar>x\<bar> < 2 powi (expo x + 1)"
    by (simp_all add: a_def)
qed

lemma expo_subnormal:
  assumes "x \<noteq> 0" and "\<bar>x\<bar> < 2 powi (- 1022)"
  shows "expo x = - 1022"
proof -
  define a where "a = \<bar>x\<bar>"
  have a0: "0 < a" using assms(1) by (simp add: a_def)
  have a1: "a < 1"
  proof -
    have "(2::real) powi (- 1022) \<le> 2 powi 0" by (intro power_int_increasing) simp_all
    with assms(2) show ?thesis by (simp add: a_def)
  qed
  define m where "m = \<lceil>1 / a\<rceil>"
  have "a < 1 / 2 ^ 1022" using assms(2) by (simp add: a_def power_int_def power_one_over)
  then have "2 ^ 1022 < 1 / a" using a0 by (simp add: field_simps)
  also have "\<dots> \<le> real_of_int m" by (simp add: m_def)
  finally have "real_of_int (2 ^ 1022) < real_of_int m" by simp
  then have "(2::int) ^ 1022 < m" by (simp only: of_int_less_iff)
  then have "(2::int) ^ (nat 1022 - 1) \<le> m - 1" by simp
  then have "1022 \<le> bitlen (m - 1)" by (simp add: bitlen_ge_iff_power)
  then show ?thesis using a1 by (simp add: expo_def a_def [symmetric] m_def [symmetric])
qed

lemma expo_eqI:
  assumes "2 powi e \<le> \<bar>x\<bar>" and "\<bar>x\<bar> < 2 powi (e + 1)" and "- 1022 \<le> e"
  shows "expo x = e"
proof -
  have "(2::real) powi (- 1022) \<le> 2 powi e" using assms(3) by (intro power_int_increasing) simp_all
  with assms(1) have n: "2 powi (- 1022) \<le> \<bar>x\<bar>" by simp
  note b = expo_normal [OF n]
  have "\<not> e + 1 \<le> expo x"
  proof
    assume "e + 1 \<le> expo x"
    then have "(2::real) powi (e + 1) \<le> 2 powi expo x" by (intro power_int_increasing) simp_all
    with b(1) assms(2) show False by simp
  qed
  moreover have "\<not> expo x + 1 \<le> e"
  proof
    assume "expo x + 1 \<le> e"
    then have "(2::real) powi (expo x + 1) \<le> 2 powi e" by (intro power_int_increasing) simp_all
    with b(2) assms(1) show False by simp
  qed
  ultimately show ?thesis by simp
qed

lemma fl_eval:
  assumes "2 powi e \<le> \<bar>x\<bar>" and "\<bar>x\<bar> < 2 powi (e + 1)" and "- 1022 \<le> e"
  shows "fl x = of_int (rne (x / 2 powi (e - 52))) * 2 powi (e - 52)"
proof -
  have "(0::real) < 2 powi e" by simp
  with assms(1) have "0 < \<bar>x\<bar>" by linarith
  then have "x \<noteq> 0" by simp
  then show ?thesis by (simp add: fl_def expo_eqI [OF assms])
qed

lemma fl_error_ulp: "\<bar>fl x - x\<bar> \<le> 2 powi (expo x - 53)"
proof (cases "x = 0")
  case True
  then show ?thesis by (simp add: fl_def)
next
  case False
  define q :: real where "q = 2 powi (expo x - 52)"
  have q0: "0 < q" by (simp add: q_def)
  have "fl x - x = (of_int (rne (x / q)) - x / q) * q"
    using False q0 by (simp add: fl_def q_def [symmetric] algebra_simps)
  then have "\<bar>fl x - x\<bar> = \<bar>of_int (rne (x / q)) - x / q\<bar> * q"
    using q0 by (simp add: abs_mult)
  also have "\<dots> \<le> 1 / 2 * q" using rne_error [of "x / q"] q0 by (intro mult_right_mono) simp_all
  also have "\<dots> = 2 powi (expo x - 53)"
  proof -
    have "(2::real) powi (expo x - 52) = 2 powi (expo x - 53 + 1)" by simp
    also have "\<dots> = 2 powi (expo x - 53) * 2" by (subst power_int_add) simp_all
    finally show ?thesis by (simp add: q_def)
  qed
  finally show ?thesis .
qed

lemma fl_error_normal:
  assumes "2 powi (- 1022) \<le> \<bar>x\<bar>"
  shows "\<bar>fl x - x\<bar> \<le> \<bar>x\<bar> / 2 ^ 53"
proof -
  have "(2::real) powi (expo x - 53) = 2 powi expo x * 2 powi (- 53)"
    by (subst power_int_add [symmetric]) simp_all
  also have "\<dots> = 2 powi expo x / 2 ^ 53" by (simp add: power_int_def power_one_over)
  also have "\<dots> \<le> \<bar>x\<bar> / 2 ^ 53" using expo_normal(1) [OF assms] by (simp add: divide_right_mono)
  finally show ?thesis using fl_error_ulp [of x] by linarith
qed

lemma fl_error_subnormal:
  assumes "\<bar>x\<bar> < 2 powi (- 1022)"
  shows "\<bar>fl x - x\<bar> \<le> 2 powi (- 1075)"
proof (cases "x = 0")
  case True
  then show ?thesis by (simp add: fl_def)
next
  case False
  from fl_error_ulp [of x] expo_subnormal [OF False assms] show ?thesis by simp
qed

lemma fl_tiny:
  assumes "\<bar>x\<bar> \<le> 2 powi (- 1075)"
  shows "fl x = 0"
proof (cases "x = 0")
  case True
  then show ?thesis by (simp add: fl_def)
next
  case False
  have "(2::real) powi (- 1075) < 2 powi (- 1022)" by (intro power_int_strict_increasing) simp_all
  with assms have s: "\<bar>x\<bar> < 2 powi (- 1022)" by simp
  have e: "expo x = - 1022" by (rule expo_subnormal [OF False s])
  have "\<bar>x / 2 powi (- 1074)\<bar> = \<bar>x\<bar> * 2 ^ 1074" by (simp add: power_int_def power_one_over abs_mult)
  also have "\<dots> \<le> 2 powi (- 1075) * 2 ^ 1074" using assms by (intro mult_right_mono) simp_all
  also have "\<dots> = 1 / 2" by (simp add: power_int_def power_one_over)
  finally have "rne (x / 2 powi (- 1074)) = 0" by (rule rne_zero)
  then show ?thesis using False by (simp add: fl_def e)
qed

lemma fl_error:
  "\<bar>fl x - x\<bar> \<le> \<bar>x\<bar> / 2 ^ 53 + 2 powi (- 1075)"
proof (cases "2 powi (- 1022) \<le> \<bar>x\<bar>")
  case True
  have "(0::real) \<le> 2 powi (- 1075)" by simp
  with fl_error_normal [OF True] show ?thesis by linarith
next
  case False
  then have "\<bar>x\<bar> < 2 powi (- 1022)" by simp
  from fl_error_subnormal [OF this] have "\<bar>fl x - x\<bar> \<le> 2 powi (- 1075)" .
  moreover have "0 \<le> \<bar>x\<bar> / 2 ^ 53" by simp
  ultimately show ?thesis by linarith
qed

lemma fl64_moderate:
  assumes "\<bar>x\<bar> \<le> 10 ^ 6"
  shows "fl64 x = Some (fl x)"
proof -
  have "(2::real) powi (- 1075) \<le> 2 powi 0" by (intro power_int_increasing) simp_all
  moreover have "\<bar>x\<bar> / 2 ^ 53 \<le> \<bar>x\<bar>" by (simp add: field_simps)
  ultimately have "\<bar>fl x\<bar> \<le> 2 * 10 ^ 6 + 1" using fl_error [of x] assms by simp
  also have "\<dots> < (2::real) ^ 1024"
  proof -
    have "(2 * 10 ^ 6 + 1 :: real) < 2 ^ 30" by simp
    also have "\<dots> \<le> 2 ^ 1024" by (intro power_increasing) simp_all
    finally show ?thesis .
  qed
  finally show ?thesis by (simp add: fl64_def)
qed

lemma tiny_le: "(2::real) powi (- 1075) \<le> 1 / 10 ^ 20"
proof -
  have "(2::real) powi (- 1075) \<le> 2 powi (- 70)" by (intro power_int_increasing) simp_all
  also have "\<dots> = 1 / 2 ^ 70" by (simp add: power_int_def power_one_over)
  also have "\<dots> \<le> 1 / 10 ^ 20" by simp
  finally show ?thesis .
qed

lemma fl_err_le:
  assumes "\<bar>z\<bar> \<le> B"
  shows "\<bar>fl z - z\<bar> \<le> B / 2 ^ 53 + 1 / 10 ^ 20"
proof -
  have "\<bar>z\<bar> / 2 ^ 53 \<le> B / 2 ^ 53" using assms by (simp add: divide_right_mono)
  with fl_error [of z] tiny_le show ?thesis by linarith
qed

lemma fl_err_within:
  assumes "\<bar>z\<bar> \<le> B" and "B / 2 ^ 53 + 1 / 10 ^ 20 \<le> E"
  shows "\<bar>fl z - z\<bar> \<le> E"
  using fl_err_le [OF assms(1)] assms(2) by (rule order_trans)

lemma abs_mult_le:
  fixes a x :: real
  assumes "\<bar>a\<bar> \<le> A" and "\<bar>x\<bar> \<le> B"
  shows "\<bar>a * x\<bar> \<le> A * B"
  unfolding abs_mult using assms by (intro mult_mono) simp_all

lemma fl_subnormal_eval:
  assumes "\<bar>x\<bar> < 2 powi (- 1022)"
  shows "fl x = of_int (rne (x / 2 powi (- 1074))) * 2 powi (- 1074)"
proof (cases "x = 0")
  case True
  then show ?thesis by (simp add: fl_def rne_def)
next
  case False
  with expo_subnormal [OF False assms] show ?thesis by (simp add: fl_def)
qed

lemma fl_zero: "fl 0 = 0"
  by (simp add: fl_def)

lemma fl_small_ints: "fl 2 = 2" "fl 3 = 3" "fl 4 = 4" "fl 100 = 100"
  by (subst fl_eval [where e = "1"], simp_all add: rne_def Let_def power_int_def power_one_over)
     (subst fl_eval [where e = "1"], simp_all add: rne_def Let_def power_int_def power_one_over,
      subst fl_eval [where e = "2"], simp_all add: rne_def Let_def power_int_def power_one_over,
      subst fl_eval [where e = "6"], simp_all add: rne_def Let_def power_int_def power_one_over)

lemma fmul_Some: "\<bar>a * b\<bar> \<le> 10 ^ 6 \<Longrightarrow> fmul (Some a) (Some b) = Some (fl (a * b))"
  by (simp add: fmul_def fl64_moderate)

lemma fadd_Some: "\<bar>a + b\<bar> \<le> 10 ^ 6 \<Longrightarrow> fadd (Some a) (Some b) = Some (fl (a + b))"
  by (simp add: fadd_def fl64_moderate)

lemma fsub_Some: "\<bar>a - b\<bar> \<le> 10 ^ 6 \<Longrightarrow> fsub (Some a) (Some b) = Some (fl (a - b))"
  by (simp add: fsub_def fl64_moderate)

lemma fdiv_Some:
  "b \<noteq> 0 \<Longrightarrow> \<bar>a / b\<bar> \<le> 10 ^ 6 \<Longrightarrow> fdiv (Some a) (Some b) = Some (fl (a / b))"
  by (simp add: fdiv_def fl64_moderate)

lemma rel_fl:
  fixes z z' r r' :: real
  assumes "\<bar>z' - z\<bar> \<le> r * z" and "2 powi (- 1021) \<le> z" and "0 \<le> r" and "r \<le> 1 / 2"
    and "r + (1 + r) / 2 ^ 53 \<le> r'"
  shows "\<bar>fl z' - z\<bar> \<le> r' * z"
proof -
  define u :: real where "u = 1 / 2 ^ 53"
  define A where "A = r * z"
  define m :: real where "m = 2 powi (- 1022)"
  have "(2::real) powi (- 1021) = 2 powi (- 1022 + 1)" by simp
  also have "\<dots> = 2 powi (- 1022) * 2" by (subst power_int_add) simp_all
  finally have p: "(2::real) powi (- 1021) = 2 * m" by (simp add: m_def)
  have m0: "0 < m" by (simp add: m_def)
  have z0: "0 < z" "2 * m \<le> z" using assms(2) p m0 by linarith+
  have u0: "0 \<le> u" by (simp add: u_def)
  have A: "0 \<le> A" "A \<le> z / 2"
    using mult_right_mono [of r "1 / 2" z] assms(3,4) z0 by (simp_all add: A_def)
  have zb: "z - A \<le> z'" "z' \<le> z + A" using assms(1) unfolding A_def by linarith+
  have n: "2 powi (- 1022) \<le> \<bar>z'\<bar>" using zb A z0 unfolding m_def [symmetric] by linarith
  have "\<bar>fl z' - z'\<bar> \<le> \<bar>z'\<bar> * u"
    using fl_error_normal [OF n] by (simp add: u_def)
  also have "\<dots> \<le> (z + A) * u"
    using zb A z0 u0 by (intro mult_right_mono) linarith+
  finally have e: "\<bar>fl z' - z'\<bar> \<le> (z + A) * u" .
  have "\<bar>fl z' - z\<bar> \<le> \<bar>fl z' - z'\<bar> + \<bar>z' - z\<bar>" by linarith
  also have "\<dots> \<le> (z + A) * u + A" using e assms(1) unfolding A_def by linarith
  also have "\<dots> = (r + (1 + r) / 2 ^ 53) * z" by (simp add: A_def u_def algebra_simps add_divide_distrib)
  also have "\<dots> \<le> r' * z" using assms(5) z0 by (intro mult_right_mono) simp_all
  finally show ?thesis .
qed

lemma rel_mult:
  fixes a b a' b' r ra rb :: real
  assumes "\<bar>a' - a\<bar> \<le> ra * a" and "\<bar>b' - b\<bar> \<le> rb * b" and "0 \<le> a" and "0 \<le> b"
    and "0 \<le> ra" and "0 \<le> rb" and "ra + rb + ra * rb \<le> r"
  shows "\<bar>a' * b' - a * b\<bar> \<le> r * (a * b)"
proof -
  define B where "B = rb * b"
  have "\<bar>b'\<bar> \<le> b + B" using assms(2,4) unfolding B_def by linarith
  then have b': "\<bar>b'\<bar> \<le> (1 + rb) * b" by (simp add: B_def algebra_simps)
  have 1: "\<bar>(a' - a) * b'\<bar> \<le> (ra * a) * ((1 + rb) * b)"
    by (rule abs_mult_le [OF assms(1) b'])
  have "\<bar>a\<bar> \<le> a" using assms(3) by simp
  then have 2: "\<bar>a * (b' - b)\<bar> \<le> a * (rb * b)"
    by (rule abs_mult_le [OF _ assms(2)])
  have "\<bar>a' * b' - a * b\<bar> = \<bar>(a' - a) * b' + a * (b' - b)\<bar>" by (simp add: algebra_simps)
  also have "\<dots> \<le> \<bar>(a' - a) * b'\<bar> + \<bar>a * (b' - b)\<bar>" by (rule abs_triangle_ineq)
  also have "\<dots> \<le> (ra * a) * ((1 + rb) * b) + a * (rb * b)" by (intro add_mono 1 2)
  also have "\<dots> = (ra + rb + ra * rb) * (a * b)" by (simp add: algebra_simps)
  also have "\<dots> \<le> r * (a * b)" using assms(3,4,7) by (intro mult_right_mono) simp_all
  finally show ?thesis .
qed

lemma rel_div:
  fixes a b a' b' r ra rb :: real
  assumes "\<bar>a' - a\<bar> \<le> ra * a" and "\<bar>b' - b\<bar> \<le> rb * b" and "0 \<le> a" and "0 < b"
    and "0 \<le> ra" and "0 \<le> rb" and "rb < 1" and "(ra + rb) / (1 - rb) \<le> r"
  shows "\<bar>a' / b' - a / b\<bar> \<le> r * (a / b)" and "0 < b'"
proof -
  define B where "B = rb * b"
  define m where "m = (1 - rb) * b"
  have m0: "0 < m" using assms(4,7) by (simp add: m_def)
  have "b - B \<le> b'" using assms(2) unfolding B_def by linarith
  then have mb: "m \<le> b'" by (simp add: m_def B_def algebra_simps)
  with m0 show b'0: "0 < b'" by linarith
  have eq: "a' / b' - a / b = ((a' - a) * b - a * (b' - b)) / (b * b')"
    using b'0 assms(4) by (simp add: field_simps)
  have "\<bar>b\<bar> \<le> b" using assms(4) by simp
  then have 1: "\<bar>(a' - a) * b\<bar> \<le> (ra * a) * b"
    by (rule abs_mult_le [OF assms(1)])
  have "\<bar>a\<bar> \<le> a" using assms(3) by simp
  then have 2: "\<bar>a * (b' - b)\<bar> \<le> a * (rb * b)"
    by (rule abs_mult_le [OF _ assms(2)])
  have "\<bar>(a' - a) * b - a * (b' - b)\<bar> \<le> \<bar>(a' - a) * b\<bar> + \<bar>a * (b' - b)\<bar>"
    by (rule abs_triangle_ineq4)
  also have "\<dots> \<le> (ra * a) * b + a * (rb * b)" by (intro add_mono 1 2)
  also have "\<dots> = (ra + rb) * (a * b)" by (simp add: algebra_simps)
  finally have num: "\<bar>(a' - a) * b - a * (b' - b)\<bar> \<le> (ra + rb) * (a * b)" .
  have n0: "0 \<le> (ra + rb) * (a * b)" using assms(3,4,5,6) by simp
  have den: "b * m \<le> b * b'" using mb assms(4) by simp
  have dpos: "0 < b * m" using m0 assms(4) by simp
  have "\<bar>a' / b' - a / b\<bar> = \<bar>(a' - a) * b - a * (b' - b)\<bar> / (b * b')"
    unfolding eq using b'0 assms(4) by (simp add: abs_mult)
  also have "\<dots> \<le> ((ra + rb) * (a * b)) / (b * b')"
    using num b'0 assms(4) by (intro divide_right_mono) simp_all
  also have "\<dots> \<le> ((ra + rb) * (a * b)) / (b * m)"
    using n0 den dpos by (intro divide_left_mono) simp_all
  also have "\<dots> = (ra + rb) / (1 - rb) * (a / b)"
    using assms(4,7) by (simp add: m_def)
  also have "\<dots> \<le> r * (a / b)"
    using assms(3,4,8) by (intro mult_right_mono) simp_all
  finally show "\<bar>a' / b' - a / b\<bar> \<le> r * (a / b)" .
qed

lemma rel_add:
  fixes a b a' b' r :: real
  assumes "\<bar>a' - a\<bar> \<le> r * a" and "\<bar>b' - b\<bar> \<le> r * b"
  shows "\<bar>a' + b' - (a + b)\<bar> \<le> r * (a + b)"
proof -
  have "\<bar>a' + b' - (a + b)\<bar> \<le> \<bar>a' - a\<bar> + \<bar>b' - b\<bar>" by linarith
  also have "\<dots> \<le> r * a + r * b" by (intro add_mono assms)
  finally show ?thesis by (simp add: algebra_simps)
qed

lemma rel_exact: "0 \<le> b \<Longrightarrow> \<bar>b - b\<bar> \<le> 0 * (b::real)"
  by simp

lemma rel_bound:
  fixes z z' r B :: real
  assumes "\<bar>z' - z\<bar> \<le> r * z" and "0 \<le> z" and "z \<le> B" and "0 \<le> r" and "r \<le> 1"
  shows "\<bar>z'\<bar> \<le> 2 * B"
proof -
  have "r * z \<le> 1 * z" using assms(2,5) by (intro mult_right_mono) simp_all
  with assms(1,2,3) show ?thesis by linarith
qed

lemma rel_abs:
  fixes z z' r B E :: real
  assumes "\<bar>z' - z\<bar> \<le> r * z" and "0 \<le> z" and "z \<le> B" and "0 \<le> r" and "r * B \<le> E"
  shows "\<bar>z' - z\<bar> \<le> E"
proof -
  have "r * z \<le> r * B" using assms(3,4) by (intro mult_left_mono) simp_all
  with assms(1,5) show ?thesis by linarith
qed

lemma fl_step:
  fixes z z' r r' B :: real
  assumes "\<bar>z' - z\<bar> \<le> r * z" and "2 powi (- 1021) \<le> z" and "z \<le> B"
    and "0 \<le> r" and "r \<le> 1 / 2" and "r + (1 + r) / 2 ^ 53 \<le> r'" and "2 * B \<le> 10 ^ 6"
  shows "\<bar>fl z' - z\<bar> \<le> r' * z" and "fl64 z' = Some (fl z')"
proof -
  show "\<bar>fl z' - z\<bar> \<le> r' * z" by (rule rel_fl [OF assms(1,2,4,5,6)])
  have "(0::real) < 2 powi (- 1021)" by simp
  with assms(2) have z0: "0 \<le> z" by linarith
  have "\<bar>z'\<bar> \<le> 2 * B" by (rule rel_bound [OF assms(1) z0 assms(3,4)]) (use assms(5) in simp)
  then have "\<bar>z'\<bar> \<le> 10 ^ 6" using assms(7) by (rule order_trans)
  then show "fl64 z' = Some (fl z')" by (rule fl64_moderate)
qed

lemma fl_abs_step:
  fixes z B E :: real
  assumes "\<bar>z\<bar> \<le> B" and "B / 2 ^ 53 + 1 / 10 ^ 20 \<le> E" and "B \<le> 10 ^ 6"
  shows "\<bar>fl z - z\<bar> \<le> E" and "fl64 z = Some (fl z)"
proof -
  show "\<bar>fl z - z\<bar> \<le> E" by (rule fl_err_within [OF assms(1,2)])
  from assms(1,3) have "\<bar>z\<bar> \<le> 10 ^ 6" by (rule order_trans)
  then show "fl64 z = Some (fl z)" by (rule fl64_moderate)
qed

lemma double_below_100:
  assumes "fl s = s" and "0 < s" and "s < 100"
  shows "2 powi (- 46) \<le> 100 - s"
proof (cases "s < 64")
  case True
  have "(2::real) powi (- 46) \<le> 2 powi 0" by (intro power_int_increasing) simp_all
  with True show ?thesis by simp
next
  case False
  define q :: real where "q = 2 powi (- 46)"
  define n where "n = rne (s / 2 powi (6 - 52))"
  have q0: "0 < q" by (simp add: q_def)
  have "2 powi 6 \<le> \<bar>s\<bar>" "\<bar>s\<bar> < 2 powi (6 + 1)" using False assms(3) by simp_all
  from fl_eval [OF this] have "fl s = of_int n * q" by (simp add: n_def q_def)
  with assms(1) have sn: "s = of_int n * q" by simp
  have h: "100 = of_int 7036874417766400 * q"
    by (simp add: q_def power_int_def power_one_over)
  from assms(3) have "of_int n * q < of_int 7036874417766400 * q"
    unfolding sn [symmetric] h [symmetric] .
  with q0 have "(of_int n :: real) < of_int 7036874417766400" by (simp only: mult_less_cancel_right_pos)
  then have "n < 7036874417766400" by (simp only: of_int_less_iff)
  then have "n + 1 \<le> 7036874417766400" by simp
  then have "(of_int (n + 1) :: real) \<le> of_int 7036874417766400" by (simp only: of_int_le_iff)
  then have "of_int (n + 1) * q \<le> of_int 7036874417766400 * q"
    using q0 by (intro mult_right_mono) simp_all
  then have "s + q \<le> 100" unfolding h [symmetric] by (simp add: sn algebra_simps)
  then show ?thesis unfolding q_def by linarith
qed

section \<open>Properties of the correlation engine\<close>

lemma lnaw_diff:
  "computeLnawFromX x - computeLnawFromX y =
     (y - x) * (1.06152 - 3.25726 * (x + y) + 37.2263 * (x * x + x * y + y * y))"
  by (simp add: computeLnawFromX_def B1_def B2_def B3_def field_simps)

lemma lnaw_slope_pos:
  fixes x y :: real
  shows "0 < 1.06152 - 3.25726 * (x + y) + 37.2263 * (x * x + x * y + y * y)"
    (is "0 < ?q")
proof -
  define s where "s = x + y"
  have sq: "x * x + x * y + y * y = 3 / 4 * s\<^sup>2 + (x - y)\<^sup>2 / 4"
    by (simp add: s_def power2_eq_square field_simps)
  have "?q = 1.06152 - 3.25726 * s + 37.2263 * (3 / 4 * s\<^sup>2 + (x - y)\<^sup>2 / 4)"
    unfolding sq s_def ..
  also have "\<dots> = (5 * s - 0.325726)\<^sup>2 + 2.919725 * s\<^sup>2
                   + 0.955422572924 + 37.2263 / 4 * (x - y)\<^sup>2"
    by (simp add: power2_eq_square field_simps)
  finally have q: "?q = (5 * s - 0.325726)\<^sup>2 + 2.919725 * s\<^sup>2
                   + 0.955422572924 + 37.2263 / 4 * (x - y)\<^sup>2" .
  show ?thesis unfolding q by (intro add_pos_nonneg add_nonneg_pos) simp_all
qed

lemma lnaw_strict_antimono: "x < y \<Longrightarrow> computeLnawFromX y < computeLnawFromX x"
proof -
  assume "x < y"
  then have "0 < (y - x) * (1.06152 - 3.25726 * (x + y)
                    + 37.2263 * (x * x + x * y + y * y))"
    using lnaw_slope_pos [of x y] by simp
  then show ?thesis using lnaw_diff [of x y] by linarith
qed

lemma lnaw64_r0: "fl (- (13269 / 12500)) = - (4780661076446329 / 4503599627370496)"
  by (subst fl_eval [where e = "0"]) (simp_all add: rne_def Let_def power_int_def power_one_over)

lemma lnaw64_r1: "fl (162863 / 50000) = 7334697461124411 / 2251799813685248"
  by (subst fl_eval [where e = "1"]) (simp_all add: rne_def Let_def power_int_def power_one_over)

lemma lnaw64_r2: "fl (- (372263 / 10000)) = - (5239135962761947 / 140737488355328)"
  by (subst fl_eval [where e = "5"]) (simp_all add: rne_def Let_def power_int_def power_one_over)

lemma lnaw64_r3: "fl (- (17224146753974658217010888976613 / 162259276829213363391578010288128)) = - (7649057722314127 / 72057594037927936)"
  by (subst fl_eval [where e = "- 4"]) (simp_all add: rne_def Let_def power_int_def power_one_over)

lemma lnaw64_r4: "fl (26426032602236177827540649647167 / 81129638414606681695789005144064) = 5867757968899529 / 18014398509481984"
  by (subst fl_eval [where e = "- 2"]) (simp_all add: rne_def Let_def power_int_def power_one_over)

lemma lnaw64_r5: "fl (21140826081788942982608460097013 / 649037107316853453566312041152512) = 4694206375119623 / 144115188075855872"
  by (subst fl_eval [where e = "- 5"]) (simp_all add: rne_def Let_def power_int_def power_one_over)

lemma lnaw64_r6: "fl (- (10603909069508631 / 144115188075855872)) = - (1325488633688579 / 18014398509481984)"
  by (subst fl_eval [where e = "- 4"]) (simp_all add: rne_def Let_def power_int_def power_one_over)

lemma lnaw64_r7: "fl (- (18875976615710456501149768004959 / 5070602400912917605986812821504)) = - (2095654385104779 / 562949953421312)"
  by (subst fl_eval [where e = "1"]) (simp_all add: rne_def Let_def power_int_def power_one_over)

lemma lnaw64_r8: "fl (- (7550390646284183321035847581263 / 20282409603651670423947251286016)) = - (6706094032335293 / 18014398509481984)"
  by (subst fl_eval [where e = "- 2"]) (simp_all add: rne_def Let_def power_int_def power_one_over)

lemma lnaw64_r9: "fl (- (24161250068109387347890652639321 / 649037107316853453566312041152512)) = - (5364875225868235 / 144115188075855872)"
  by (subst fl_eval [where e = "- 5"]) (simp_all add: rne_def Let_def power_int_def power_one_over)

lemma lnaw64_r10: "fl (- (15968784295376867 / 144115188075855872)) = - (3992196073844217 / 36028797018963968)"
  by (subst fl_eval [where e = "- 4"]) (simp_all add: rne_def Let_def power_int_def power_one_over)

lemma lnaw64_r11: "fl (- (34448293507949321214682854399555 / 324518553658426726783156020576256)) = - (478066107644633 / 4503599627370496)"
  by (subst fl_eval [where e = "- 4"]) (simp_all add: rne_def Let_def power_int_def power_one_over)

lemma lnaw64_r12: "fl (52852065204472362989778760418745 / 162259276829213363391578010288128) = 2933878984449765 / 9007199254740992"
  by (subst fl_eval [where e = "- 2"]) (simp_all add: rne_def Let_def power_int_def power_one_over)

lemma lnaw64_r13: "fl (21140826081788949519367146443175 / 649037107316853453566312041152512) = 4694206375119625 / 144115188075855872"
  by (subst fl_eval [where e = "- 5"]) (simp_all add: rne_def Let_def power_int_def power_one_over)

lemma lnaw64_r14: "fl (- (37751953231420918241435498771865 / 10141204801825835211973625643008)) = - (8382617540419117 / 2251799813685248)"
  by (subst fl_eval [where e = "1"]) (simp_all add: rne_def Let_def power_int_def power_one_over)

lemma lnaw64_r15: "fl (- (60403125170273482156663724862015 / 162259276829213363391578010288128)) = - (6706094032335295 / 18014398509481984)"
  by (subst fl_eval [where e = "- 2"]) (simp_all add: rne_def Let_def power_int_def power_one_over)

lemma lnaw64_r16: "fl (- (48322500136218795813394145199525 / 1298074214633706907132624082305024)) = - (5364875225868237 / 144115188075855872)"
  by (subst fl_eval [where e = "- 5"]) (simp_all add: rne_def Let_def power_int_def power_one_over)

lemma lnaw64_r17: "fl (- (15968784295376869 / 144115188075855872)) = - (3992196073844217 / 36028797018963968)"
  by (subst fl_eval [where e = "- 4"]) (simp_all add: rne_def Let_def power_int_def power_one_over)

lemma lnaw64_r18: "fl (- (9579225728623949502105 / 37778931862957161709568)) = - (570966346777913 / 2251799813685248)"
  by (subst fl_eval [where e = "- 2"]) (simp_all add: rne_def Let_def power_int_def power_one_over)

lemma lnaw64_r19: "fl (14696863364240732919195 / 18889465931478580854784) = 3504005280552085 / 4503599627370496"
  by (subst fl_eval [where e = "- 1"]) (simp_all add: rne_def Let_def power_int_def power_one_over)

lemma lnaw64_r20: "fl (7021133060879837558325 / 37778931862957161709568) = 6695874272231901 / 36028797018963968"
  by (subst fl_eval [where e = "- 3"]) (simp_all add: rne_def Let_def power_int_def power_one_over)

lemma lnaw64_r21: "fl (- (2439587276214707 / 36028797018963968)) = - (2439587276214707 / 36028797018963968)"
  by (subst fl_eval [where e = "- 4"]) (simp_all add: rne_def Let_def power_int_def power_one_over)

lemma lnaw64_r22: "fl (- (10497892489704437491515 / 1180591620717411303424)) = - (5005785221912593 / 562949953421312)"
  by (subst fl_eval [where e = "3"]) (simp_all add: rne_def Let_def power_int_def power_one_over)

lemma lnaw64_r23: "fl (- (10030317109481248660785 / 4722366482869645213696)) = - (2391413953180611 / 1125899906842624)"
  by (subst fl_eval [where e = "1"]) (simp_all add: rne_def Let_def power_int_def power_one_over)

lemma lnaw64_r24: "fl (- (4791783751615883388195 / 9444732965739290427392)) = - (2284900546844427 / 4503599627370496)"
  by (subst fl_eval [where e = "- 1"]) (simp_all add: rne_def Let_def power_int_def power_one_over)

lemma lnaw64_r25: "fl (- (20718791650970123 / 36028797018963968)) = - (5179697912742531 / 9007199254740992)"
  by (subst fl_eval [where e = "- 1"]) (simp_all add: rne_def Let_def power_int_def power_one_over)

lemma lnaw64_r26: "fl (- (41142461225441638974557534604409 / 162259276829213363391578010288128)) = - (570966346777913 / 2251799813685248)"
  by (subst fl_eval [where e = "- 2"]) (simp_all add: rne_def Let_def power_int_def power_one_over)

lemma lnaw64_r27: "fl (63122547503194491093710596771131 / 81129638414606681695789005144064) = 7008010561104171 / 9007199254740992"
  by (subst fl_eval [where e = "- 1"]) (simp_all add: rne_def Let_def power_int_def power_one_over)

lemma lnaw64_r28: "fl (60311073754686574211626540706091 / 324518553658426726783156020576256) = 3347937136115951 / 18014398509481984"
  by (subst fl_eval [where e = "- 3"]) (simp_all add: rne_def Let_def power_int_def power_one_over)

lemma lnaw64_r29: "fl (- (1219793638107353 / 18014398509481984)) = - (1219793638107353 / 18014398509481984)"
  by (subst fl_eval [where e = "- 4"]) (simp_all add: rne_def Let_def power_int_def power_one_over)

lemma lnaw64_r30: "fl (- (45088104920204580971269165255387 / 5070602400912917605986812821504)) = - (5005785221912593 / 562949953421312)"
  by (subst fl_eval [where e = "3"]) (simp_all add: rne_def Let_def power_int_def power_one_over)

lemma lnaw64_r31: "fl (- (43079883953731219529100594599953 / 20282409603651670423947251286016)) = - (2391413953180611 / 1125899906842624)"
  by (subst fl_eval [where e = "1"]) (simp_all add: rne_def Let_def power_int_def power_one_over)

lemma lnaw64_r32: "fl (- (20580554502694408697861150651331 / 40564819207303340847894502572032)) = - (2284900546844427 / 4503599627370496)"
  by (subst fl_eval [where e = "- 1"]) (simp_all add: rne_def Let_def power_int_def power_one_over)

lemma lnaw64_r33: "fl (- (10359395825485061 / 18014398509481984)) = - (2589848956371265 / 4503599627370496)"
  by (subst fl_eval [where e = "- 1"]) (simp_all add: rne_def Let_def power_int_def power_one_over)

lemmas lnaw64_steps = lnaw64_r0 lnaw64_r1 lnaw64_r2 lnaw64_r3 lnaw64_r4 lnaw64_r5 lnaw64_r6 lnaw64_r7 lnaw64_r8 lnaw64_r9 lnaw64_r10 lnaw64_r11 lnaw64_r12 lnaw64_r13 lnaw64_r14 lnaw64_r15 lnaw64_r16 lnaw64_r17 lnaw64_r18 lnaw64_r19 lnaw64_r20 lnaw64_r21 lnaw64_r22 lnaw64_r23 lnaw64_r24 lnaw64_r25 lnaw64_r26 lnaw64_r27 lnaw64_r28 lnaw64_r29 lnaw64_r30 lnaw64_r31 lnaw64_r32 lnaw64_r33

lemmas float_ops = computeLnawFromX64_def lit_def fadd_def fmul_def fsub_def fdiv_def
  fl64_moderate B1_def B2_def B3_def

lemma lnaw64_literals:
  "fl (1 / 10) = 3602879701896397 / 36028797018963968"
  "fl (5000000000000001 / 50000000000000000) = 7205759403792795 / 72057594037927936"
  "fl (11943250894546509 / 50000000000000000) = 2003745 / 8388608"
  "fl (1194325089454651 / 5000000000000000) = 8606019244523521 / 36028797018963968"
  by (subst fl_eval [where e = "- 4"], simp_all add: rne_def Let_def power_int_def power_one_over)
     (subst fl_eval [where e = "- 4"], simp_all add: rne_def Let_def power_int_def power_one_over,
      subst fl_eval [where e = "- 3"], simp_all add: rne_def Let_def power_int_def power_one_over,
      subst fl_eval [where e = "- 3"], simp_all add: rne_def Let_def power_int_def power_one_over)

text \<open>
  C5 does not hold of the binary64 function. In exact arithmetic the cubic is strictly
  decreasing (\<open>lnaw_strict_antimono\<close>), but each of its eight operations rounds. The
  literals \<open>0.1\<close> and \<open>0.10000000000000002\<close> denote adjacent binary64 numbers in
  \<open>[0, 0.3]\<close> that give the same result, and the literals \<open>0.23886501789093018\<close> and
  \<open>0.2388650178909302\<close> denote two that give results in increasing order.
\<close>

theorem computeLnawFromX64_ties:
  "lit 0.1 = Some (3602879701896397 / 36028797018963968)
   \<and> lit 0.10000000000000002 = Some (7205759403792795 / 72057594037927936)
   \<and> (0::real) \<le> 3602879701896397 / 36028797018963968
   \<and> (3602879701896397 / 36028797018963968 :: real) < 7205759403792795 / 72057594037927936
   \<and> (7205759403792795 / 72057594037927936 :: real) \<le> 0.3
   \<and> computeLnawFromX64 (3602879701896397 / 36028797018963968)
       = Some (- (3992196073844217 / 36028797018963968))
   \<and> computeLnawFromX64 (7205759403792795 / 72057594037927936)
       = Some (- (3992196073844217 / 36028797018963968))
   \<and> lit 0.23886501789093018 = Some (2003745 / 8388608)
   \<and> lit 0.2388650178909302 = Some (8606019244523521 / 36028797018963968)
   \<and> (0::real) \<le> 2003745 / 8388608
   \<and> (2003745 / 8388608 :: real) < 8606019244523521 / 36028797018963968
   \<and> (8606019244523521 / 36028797018963968 :: real) \<le> 0.3
   \<and> computeLnawFromX64 (2003745 / 8388608)
       = Some (- (5179697912742531 / 9007199254740992))
   \<and> computeLnawFromX64 (8606019244523521 / 36028797018963968)
       = Some (- (2589848956371265 / 4503599627370496))
   \<and> (- (5179697912742531 / 9007199254740992) :: real)
       < - (2589848956371265 / 4503599627370496)"
  by (simp add: float_ops lnaw64_steps lnaw64_literals)

lemma lit_coefficients:
  "lit B1 = Some (- (4780661076446329 / 4503599627370496))"
  "lit B2 = Some (7334697461124411 / 2251799813685248)"
  "lit B3 = Some (- (5239135962761947 / 140737488355328))"
  by (simp_all add: lit_def fl64_moderate B1_def B2_def B3_def lnaw64_r0 lnaw64_r1 lnaw64_r2)

lemma err_chain:
  fixes t :: real
  assumes "\<bar>t - w * X\<bar> \<le> E1" and "\<bar>w - c\<bar> \<le> E2" and "\<bar>X\<bar> \<le> 3 / 10"
  shows "\<bar>t - c * X\<bar> \<le> E1 + E2 * (3 / 10)"
proof -
  have "\<bar>t - c * X\<bar> = \<bar>(t - w * X) + (w - c) * X\<bar>" by (simp add: algebra_simps)
  also have "\<dots> \<le> \<bar>t - w * X\<bar> + \<bar>(w - c) * X\<bar>" by (rule abs_triangle_ineq)
  also have "\<dots> \<le> E1 + E2 * (3 / 10)"
    by (intro add_mono assms(1) abs_mult_le [OF assms(2) assms(3)])
  finally show ?thesis .
qed

lemma lnaw64_error:
  assumes X0: "0 \<le> X" and X1: "X \<le> 3 / 10"
  shows "\<exists>v. computeLnawFromX64 X = Some v \<and> \<bar>v - computeLnawFromX X\<bar> \<le> 1 / 10 ^ 15"
proof -
  define b1 :: real where "b1 = - (4780661076446329 / 4503599627370496)"
  define b2 :: real where "b2 = 7334697461124411 / 2251799813685248"
  define b3 :: real where "b3 = - (5239135962761947 / 140737488355328)"
  define t1 where "t1 = fl (b1 * X)"
  define t2 where "t2 = fl (b2 * X)"
  define t3 where "t3 = fl (t2 * X)"
  define s1 where "s1 = fl (t1 + t3)"
  define t4 where "t4 = fl (b3 * X)"
  define t5 where "t5 = fl (t4 * X)"
  define t6 where "t6 = fl (t5 * X)"
  define v where "v = fl (s1 + t6)"
  define X2 where "X2 = X * X"
  define X3 where "X3 = X2 * X"
  define e :: real where "e = 1 / 10 ^ 17"
  have e0: "0 \<le> e" "e \<le> 1 / 1000000" by (simp_all add: e_def)
  have aX: "\<bar>X\<bar> \<le> 3 / 10" using X0 X1 by simp
  have X2b: "\<bar>X2\<bar> \<le> 9 / 100"
    using abs_mult_le [OF aX aX] by (simp add: X2_def)
  have X3b: "\<bar>X3\<bar> \<le> 27 / 1000"
    using abs_mult_le [OF X2b aX] by (simp add: X3_def)
  \<comment> \<open>first term\<close>
  have z1: "\<bar>b1 * X\<bar> \<le> 32 / 100"
    using abs_mult_le [of b1 "107 / 100" X "3 / 10"] aX by (simp add: b1_def)
  have e1: "\<bar>t1 - b1 * X\<bar> \<le> 4 * e"
    unfolding t1_def by (rule fl_err_within [OF z1]) (simp add: e_def)
  \<comment> \<open>second term\<close>
  have z2: "\<bar>b2 * X\<bar> \<le> 98 / 100"
    using abs_mult_le [of b2 "326 / 100" X "3 / 10"] aX by (simp add: b2_def)
  have e2: "\<bar>t2 - b2 * X\<bar> \<le> 11 * e"
    unfolding t2_def by (rule fl_err_within [OF z2]) (simp add: e_def)
  have a2: "\<bar>t2\<bar> \<le> 1" using e2 z2 e0 by linarith
  have z3: "\<bar>t2 * X\<bar> \<le> 3 / 10"
    using abs_mult_le [OF a2 aX] by simp
  have e3': "\<bar>t3 - t2 * X\<bar> \<le> 4 * e"
    unfolding t3_def by (rule fl_err_within [OF z3]) (simp add: e_def)
  have "\<bar>t3 - b2 * X * X\<bar> \<le> 4 * e + 11 * e * (3 / 10)"
    by (rule err_chain [OF e3' e2 aX])
  then have e3: "\<bar>t3 - b2 * X2\<bar> \<le> 8 * e"
    using e0 by (simp add: X2_def mult.assoc)
  have z4: "\<bar>t1 + t3\<bar> \<le> 63 / 100" using z1 e1 z3 e3' e0 by linarith
  have e4: "\<bar>s1 - (t1 + t3)\<bar> \<le> 8 * e"
    unfolding s1_def by (rule fl_err_within [OF z4]) (simp add: e_def)
  \<comment> \<open>third term\<close>
  have z5: "\<bar>b3 * X\<bar> \<le> 1117 / 100"
    using abs_mult_le [of b3 "37227 / 1000" X "3 / 10"] aX by (simp add: b3_def)
  have e5: "\<bar>t4 - b3 * X\<bar> \<le> 125 * e"
    unfolding t4_def by (rule fl_err_within [OF z5]) (simp add: e_def)
  have a4: "\<bar>t4\<bar> \<le> 112 / 10" using e5 z5 e0 by linarith
  have z6: "\<bar>t4 * X\<bar> \<le> 336 / 100"
    using abs_mult_le [OF a4 aX] by simp
  have e6': "\<bar>t5 - t4 * X\<bar> \<le> 38 * e"
    unfolding t5_def by (rule fl_err_within [OF z6]) (simp add: e_def)
  have "\<bar>t5 - b3 * X * X\<bar> \<le> 38 * e + 125 * e * (3 / 10)"
    by (rule err_chain [OF e6' e5 aX])
  then have e6: "\<bar>t5 - b3 * X2\<bar> \<le> 76 * e"
    using e0 by (simp add: X2_def mult.assoc)
  have a5: "\<bar>t5\<bar> \<le> 34 / 10" using e6' z6 e0 by linarith
  have z7: "\<bar>t5 * X\<bar> \<le> 102 / 100"
    using abs_mult_le [OF a5 aX] by simp
  have e7': "\<bar>t6 - t5 * X\<bar> \<le> 12 * e"
    unfolding t6_def by (rule fl_err_within [OF z7]) (simp add: e_def)
  have "\<bar>t6 - b3 * X2 * X\<bar> \<le> 12 * e + 76 * e * (3 / 10)"
    by (rule err_chain [OF e7' e6 aX])
  then have e7: "\<bar>t6 - b3 * X3\<bar> \<le> 35 * e"
    using e0 by (simp add: X3_def mult.assoc)
  \<comment> \<open>the sum\<close>
  have z8: "\<bar>s1 + t6\<bar> \<le> 17 / 10" using z4 e4 z7 e7' e0 by linarith
  have e8: "\<bar>v - (s1 + t6)\<bar> \<le> 19 * e"
    unfolding v_def by (rule fl_err_within [OF z8]) (simp add: e_def)
  have rounded: "\<bar>v - (b1 * X + b2 * X2 + b3 * X3)\<bar> \<le> 74 * e"
    using e1 e3 e4 e7 e8 by linarith
  \<comment> \<open>the coefficients\<close>
  have "\<bar>(b1 - B1) * X\<bar> \<le> 12 / 10 ^ 17 * (3 / 10)"
    by (rule abs_mult_le [OF _ aX]) (simp add: b1_def B1_def)
  then have c1: "\<bar>(b1 - B1) * X\<bar> \<le> 4 * e" by (simp add: e_def)
  have "\<bar>(b2 - B2) * X2\<bar> \<le> 23 / 10 ^ 17 * (9 / 100)"
    by (rule abs_mult_le [OF _ X2b]) (simp add: b2_def B2_def)
  then have c2: "\<bar>(b2 - B2) * X2\<bar> \<le> 3 * e" by (simp add: e_def)
  have "\<bar>(b3 - B3) * X3\<bar> \<le> 36 / 10 ^ 16 * (27 / 1000)"
    by (rule abs_mult_le [OF _ X3b]) (simp add: b3_def B3_def)
  then have c3: "\<bar>(b3 - B3) * X3\<bar> \<le> 10 * e" by (simp add: e_def)
  have exact: "computeLnawFromX X = B1 * X + B2 * X2 + B3 * X3"
    by (simp add: computeLnawFromX_def X2_def X3_def algebra_simps)
  have "\<bar>b1 * X + b2 * X2 + b3 * X3 - computeLnawFromX X\<bar>
          = \<bar>(b1 - B1) * X + (b2 - B2) * X2 + (b3 - B3) * X3\<bar>"
    unfolding exact by (simp add: algebra_simps)
  also have "\<dots> \<le> \<bar>(b1 - B1) * X + (b2 - B2) * X2\<bar> + \<bar>(b3 - B3) * X3\<bar>"
    by (rule abs_triangle_ineq)
  also have "\<dots> \<le> (\<bar>(b1 - B1) * X\<bar> + \<bar>(b2 - B2) * X2\<bar>) + \<bar>(b3 - B3) * X3\<bar>"
    by (intro add_mono abs_triangle_ineq order_refl)
  also have "\<dots> \<le> 17 * e" using c1 c2 c3 by linarith
  finally have "\<bar>b1 * X + b2 * X2 + b3 * X3 - computeLnawFromX X\<bar> \<le> 17 * e" .
  with rounded have "\<bar>v - computeLnawFromX X\<bar> \<le> 91 * e" by linarith
  also have "\<dots> \<le> 1 / 10 ^ 15" by (simp add: e_def)
  finally have err: "\<bar>v - computeLnawFromX X\<bar> \<le> 1 / 10 ^ 15" .
  \<comment> \<open>no operation overflows\<close>
  have m1: "fmul (lit B1) (Some X) = Some t1"
    unfolding lit_coefficients t1_def b1_def [symmetric]
    by (rule fmul_Some) (use z1 in simp)
  have m2: "fmul (lit B2) (Some X) = Some t2"
    unfolding lit_coefficients t2_def b2_def [symmetric]
    by (rule fmul_Some) (use z2 in simp)
  have m3: "fmul (Some t2) (Some X) = Some t3"
    unfolding t3_def by (rule fmul_Some) (use z3 in simp)
  have m4: "fadd (Some t1) (Some t3) = Some s1"
    unfolding s1_def by (rule fadd_Some) (use z4 in simp)
  have m5: "fmul (lit B3) (Some X) = Some t4"
    unfolding lit_coefficients t4_def b3_def [symmetric]
    by (rule fmul_Some) (use z5 in simp)
  have m6: "fmul (Some t4) (Some X) = Some t5"
    unfolding t5_def by (rule fmul_Some) (use z6 in simp)
  have m7: "fmul (Some t5) (Some X) = Some t6"
    unfolding t6_def by (rule fmul_Some) (use z7 in simp)
  have m8: "fadd (Some s1) (Some t6) = Some v"
    unfolding v_def by (rule fadd_Some) (use z8 in simp)
  have "computeLnawFromX64 X = Some v"
    unfolding computeLnawFromX64_def m1 m2 m3 m4 m5 m6 m7 m8 ..
  with err show ?thesis by blast
qed

lemma lnaw_slope_ge:
  fixes x y :: real
  shows "955 / 1000 \<le> 1.06152 - 3.25726 * (x + y) + 37.2263 * (x * x + x * y + y * y)"
    (is "_ \<le> ?q")
proof -
  define s where "s = x + y"
  have sq: "x * x + x * y + y * y = 3 / 4 * s\<^sup>2 + (x - y)\<^sup>2 / 4"
    by (simp add: s_def power2_eq_square field_simps)
  have "?q = 1.06152 - 3.25726 * s + 37.2263 * (3 / 4 * s\<^sup>2 + (x - y)\<^sup>2 / 4)"
    unfolding sq s_def ..
  also have "\<dots> = (5 * s - 0.325726)\<^sup>2 + 2.919725 * s\<^sup>2
                   + 0.955422572924 + 37.2263 / 4 * (x - y)\<^sup>2"
    by (simp add: power2_eq_square field_simps)
  finally have q: "?q = (5 * s - 0.325726)\<^sup>2 + 2.919725 * s\<^sup>2
                   + 0.955422572924 + 37.2263 / 4 * (x - y)\<^sup>2" .
  have "0 + 0 + 955 / 1000 + 0 \<le> (5 * s - 0.325726)\<^sup>2 + 2.919725 * s\<^sup>2
                   + 0.955422572924 + 37.2263 / 4 * (x - y)\<^sup>2"
    by (intro add_mono) simp_all
  then show ?thesis unfolding q by simp
qed

lemma lnaw_drop:
  assumes "x \<le> y"
  shows "955 / 1000 * (y - x) \<le> computeLnawFromX x - computeLnawFromX y"
proof -
  have "955 / 1000 * (y - x) \<le>
          (1.06152 - 3.25726 * (x + y) + 37.2263 * (x * x + x * y + y * y)) * (y - x)"
    using assms lnaw_slope_ge [of x y] by (intro mult_right_mono) simp_all
  then show ?thesis unfolding lnaw_diff [of x y] by (simp add: mult.commute)
qed

text \<open>
  C5, amended. In binary64, \<open>computeLnawFromX\<close> is strictly decreasing on \<open>[0, 0.3]\<close>
  across any gap of at least \<open>3e-15\<close>: for \<open>0 \<le> X1\<close>, \<open>X1 + 3e-15 \<le> X2\<close> and
  \<open>X2 \<le> 0.3\<close> both calls return a finite number and
  \<open>computeLnawFromX(X1) > computeLnawFromX(X2)\<close>. (The rounded result is within
  \<open>1e-15\<close> of the exact cubic, whose slope is at most \<open>-0.955\<close>.)
\<close>

theorem computeLnawFromX64_decreasing_apart:
  assumes "0 \<le> X1" and "X1 + 3 / 10 ^ 15 \<le> X2" and "X2 \<le> 0.3"
  shows "\<exists>a b. computeLnawFromX64 X1 = Some a \<and> computeLnawFromX64 X2 = Some b \<and> b < a"
proof -
  define e :: real where "e = 1 / 10 ^ 15"
  have e0: "0 < e" by (simp add: e_def)
  have sep: "X1 + 3 * e \<le> X2" using assms(2) by (simp add: e_def)
  with e0 assms have "X1 \<le> 3 / 10" "0 \<le> X2" "X2 \<le> 3 / 10" "X1 \<le> X2" by simp_all
  from lnaw64_error [OF assms(1) this(1)] obtain a where
    a: "computeLnawFromX64 X1 = Some a" "\<bar>a - computeLnawFromX X1\<bar> \<le> e"
    unfolding e_def by blast
  from lnaw64_error [OF \<open>0 \<le> X2\<close> \<open>X2 \<le> 3 / 10\<close>] obtain b where
    b: "computeLnawFromX64 X2 = Some b" "\<bar>b - computeLnawFromX X2\<bar> \<le> e"
    unfolding e_def by blast
  from lnaw_drop [OF \<open>X1 \<le> X2\<close>]
  have "955 / 1000 * (X2 - X1) \<le> computeLnawFromX X1 - computeLnawFromX X2" .
  moreover have "955 / 1000 * (3 * e) \<le> 955 / 1000 * (X2 - X1)" using sep by simp
  moreover have "computeLnawFromX X1 - e \<le> a" "b \<le> computeLnawFromX X2 + e"
    using a(2) b(2) by linarith+
  ultimately have "b < a" using e0 by linarith
  with a(1) b(1) show ?thesis by blast
qed

theorem computeLnawFromX64_decreasing_apart_witness:
  "(0::real) \<le> 1 / 8 \<and> (1 / 8 :: real) + 3 / 10 ^ 15 \<le> 1 / 4 \<and> (1 / 4 :: real) \<le> 0.3
   \<and> (\<exists>a b. computeLnawFromX64 (1 / 8) = Some a \<and> computeLnawFromX64 (1 / 4) = Some b
          \<and> b < a)"
  using computeLnawFromX64_decreasing_apart [of "1 / 8" "1 / 4"] by simp





lemma fl_molar_masses:
  "fl (1461 / 25) = 1028087352435671 / 17592186044416"
  "fl (1491 / 20) = 5245989878444851 / 70368744177664"
  "fl (9521 / 100) = 6699808133155389 / 70368744177664"
  "fl (225191 / 12500) = 5070850518435947 / 281474976710656"
  by (subst fl_eval [where e = "5"], simp_all add: rne_def Let_def power_int_def power_one_over)
     (subst fl_eval [where e = "6"], simp_all add: rne_def Let_def power_int_def power_one_over,
      subst fl_eval [where e = "6"], simp_all add: rne_def Let_def power_int_def power_one_over,
      subst fl_eval [where e = "4"], simp_all add: rne_def Let_def power_int_def power_one_over)

lemma lit_values:
  "lit 2 = Some 2" "lit 3 = Some 3" "lit 4 = Some 4" "lit 100 = Some 100"
  "lit (1461 / 25) = Some (1028087352435671 / 17592186044416)"
  "lit (1491 / 20) = Some (5245989878444851 / 70368744177664)"
  "lit (9521 / 100) = Some (6699808133155389 / 70368744177664)"
  "lit WATER_MOLAR_MASS = Some (5070850518435947 / 281474976710656)"
  by (simp_all add: lit_def fl64_moderate fl_small_ints fl_molar_masses WATER_MOLAR_MASS_def)

lemma fl_least_subnormal: "fl (2 powi (- 1074)) = 2 powi (- 1074)"
proof -
  have "\<bar>(2::real) powi (- 1074)\<bar> < 2 powi (- 1022)"
    by (simp add: power_int_def power_one_over)
  from fl_subnormal_eval [OF this] show ?thesis by (simp add: rne_def)
qed

lemma fl_100_minus_least: "fl (100 - 2 powi (- 1074)) = 100"
  by (subst fl_eval [where e = "6"]) (simp_all add: rne_def Let_def power_int_def power_one_over)

lemma fl_least_over_molar_mass:
  assumes "2 \<le> M"
  shows "fl (2 powi (- 1074) / M) = 0"
proof (rule fl_tiny)
  have "(2::real) powi (- 1074) / M \<le> 2 powi (- 1074) / 2"
    using assms by (intro divide_left_mono) simp_all
  also have "\<dots> = 2 powi (- 1075)" by (simp add: power_int_def power_one_over)
  finally show "\<bar>2 powi (- 1074) / M\<bar> \<le> 2 powi (- 1075)" using assms by simp
qed

lemma fl_water_moles:
  "fl (28147497671065600 / 5070850518435947) = 781211773313143 / 140737488355328"
  "fl (781211773313143 / 140737488355328) = 781211773313143 / 140737488355328"
  "fl (5070850518435947 / 140737488355328) = 5070850518435947 / 140737488355328"
  "fl (5070850518435947 / 70368744177664) = 5070850518435947 / 70368744177664"
  by (subst fl_eval [where e = "2"], simp_all add: rne_def Let_def power_int_def power_one_over)
     (subst fl_eval [where e = "2"], simp_all add: rne_def Let_def power_int_def power_one_over,
      subst fl_eval [where e = "5"], simp_all add: rne_def Let_def power_int_def power_one_over,
      subst fl_eval [where e = "6"], simp_all add: rne_def Let_def power_int_def power_one_over)

lemma fl_5e324: "fl (5 / 10 ^ 324) = 2 powi (- 1074)"
proof -
  have "\<bar>5 / 10 ^ 324 :: real\<bar> < 2 powi (- 1022)"
    by (simp add: power_int_def power_one_over)
  from fl_subnormal_eval [OF this] show ?thesis
    by (simp add: rne_def Let_def power_int_def power_one_over)
qed

lemma lit_5e324: "lit (5 / 10 ^ 324) = Some (2 powi (- 1074))"
proof -
  have "\<bar>(2::real) powi (- 1074)\<bar> < 2 ^ 1024"
    by (simp add: power_int_def power_one_over)
  then show ?thesis by (simp only: lit_def fl64_def fl_5e324 Let_def if_True)
qed

text \<open>
  C3 does not hold of the binary64 functions on all of \<open>(0, 100)\<close>. The smallest positive
  binary64 number, \<open>2 ^ -1074\<close> (written \<open>5e-324\<close>), is a salinity in \<open>(0, 100)\<close>;
  \<open>molesSalt\<close> underflows to \<open>0\<close>, so \<open>computeXFromSalinity\<close> returns \<open>0\<close> and
  \<open>computeSalinityFromX\<close> returns \<open>0\<close> for each of the three salts: a relative error
  of \<open>1\<close>.
\<close>

theorem roundtrip64_loses_least_subnormal:
  "(0::real) < 2 powi (- 1074) \<and> (2::real) powi (- 1074) < 100
   \<and> lit (5 / 10 ^ 324) = Some (2 powi (- 1074))
   \<and> fl (2 powi (- 1074)) = 2 powi (- 1074)
   \<and> computeXFromSalinity64 (2 powi (- 1074)) ''NaCl'' = Inr (Some 0)
   \<and> computeSalinityFromX64 0 ''NaCl'' = Inr (Some 0)
   \<and> computeXFromSalinity64 (2 powi (- 1074)) ''KCl'' = Inr (Some 0)
   \<and> computeSalinityFromX64 0 ''KCl'' = Inr (Some 0)
   \<and> computeXFromSalinity64 (2 powi (- 1074)) ''MgCl2'' = Inr (Some 0)
   \<and> computeSalinityFromX64 0 ''MgCl2'' = Inr (Some 0)
   \<and> \<not> \<bar>0 - 2 powi (- 1074)\<bar> \<le> \<bar>(2::real) powi (- 1074)\<bar> / 10 ^ 9"
proof -
  define s :: real where "s = 2 powi (- 1074)"
  have s0: "0 < s" "s < 100" by (simp_all add: s_def power_int_def power_one_over)
  have a: "fl s = s" unfolding s_def by (rule fl_least_subnormal)
  have b: "fl (100 - s) = 100" unfolding s_def by (rule fl_100_minus_least)
  have c: "fl (s / (1028087352435671 / 17592186044416)) = 0"
          "fl (s / (5245989878444851 / 70368744177664)) = 0"
          "fl (s / (6699808133155389 / 70368744177664)) = 0"
    unfolding s_def by (rule fl_least_over_molar_mass, simp)+
  have c': "fl (s * 17592186044416 / 1028087352435671) = 0"
           "fl (s * 70368744177664 / 5245989878444851) = 0"
           "fl (s * 70368744177664 / 6699808133155389) = 0"
    using c by simp_all
  have f: "fsub (Some 100) (Some s) = Some 100" "fl64 0 = Some 0"
          "fl64 (s * 17592186044416 / 1028087352435671) = Some 0"
          "fl64 (s * 70368744177664 / 5245989878444851) = Some 0"
          "fl64 (s * 70368744177664 / 6699808133155389) = Some 0"
    by (simp_all add: fsub_def fl64_def b c' fl_zero)
  have X: "computeXFromSalinity64 s ''NaCl'' = Inr (Some 0)"
          "computeXFromSalinity64 s ''KCl'' = Inr (Some 0)"
          "computeXFromSalinity64 s ''MgCl2'' = Inr (Some 0)"
    by (simp_all add: computeXFromSalinity64_def saltProps_def Let_def lit_values f
          fdiv_def fmul_def fadd_def fl64_moderate fl_zero fl_water_moles c')
  have r: "computeSalinityFromX64 0 ''NaCl'' = Inr (Some 0)"
          "computeSalinityFromX64 0 ''KCl'' = Inr (Some 0)"
          "computeSalinityFromX64 0 ''MgCl2'' = Inr (Some 0)"
    by (simp_all add: computeSalinityFromX64_def saltProps_def Let_def lit_values
          fdiv_def fmul_def fadd_def fsub_def fl64_moderate fl_zero fl_small_ints fl_water_moles)
  have "\<not> \<bar>0 - s\<bar> \<le> \<bar>s\<bar> / 10 ^ 9" using s0 by simp
  with s0 a X r lit_5e324 show ?thesis unfolding s_def by blast
qed

lemma roundtrip_ideal:
  fixes s M W k k' :: real
  assumes "0 < s" and "s < 100" and "0 < M" and "0 < W" and "0 < k" and "0 \<le> k'"
  defines "T \<equiv> (100 - s) / W + k' * (s / M)"
  defines "X \<equiv> k * (s / M) / T"
  shows "0 < T" and "((k - k' * X) * W + M * X) * T = 100 * k" and "M * X * 100 * T = 100 * k * s"
proof -
  have "0 < (100 - s) / W" using assms(2,4) by simp
  moreover have "0 \<le> k' * (s / M)" using assms(1,3,6) by simp
  ultimately show T0: "0 < T" unfolding T_def by linarith
  have XT: "X * T = k * (s / M)" using T0 by (simp add: X_def)
  have "((k - k' * X) * W + M * X) * T = k * W * T - k' * W * (X * T) + M * (X * T)"
    by (simp add: algebra_simps)
  also have "\<dots> = k * W * T - k' * W * (k * (s / M)) + M * (k * (s / M))" by (simp only: XT)
  also have "\<dots> = 100 * k" using assms(3,4) by (simp add: T_def field_simps)
  finally show "((k - k' * X) * W + M * X) * T = 100 * k" .
  have "M * X * 100 * T = M * (X * T) * 100" by simp
  also have "\<dots> = 100 * k * s" using assms(3) by (simp add: XT)
  finally show "M * X * 100 * T = 100 * k * s" .
qed

lemma roundtrip64_core:
  fixes s M W k k' :: real
  assumes M: "58 \<le> M" "M \<le> 96" and W: "18 \<le> W" "W \<le> 181 / 10"
    and k: "2 \<le> k'" "k' \<le> k" "k \<le> 4"
    and s: "2 powi (- 1000) \<le> s" "s < 100" "2 powi (- 46) \<le> 100 - s"
  shows "\<exists>X r.
           fdiv (fmul (Some k) (fdiv (Some s) (Some M)))
                (fadd (fdiv (fsub (Some 100) (Some s)) (Some W))
                      (fmul (Some k') (fdiv (Some s) (Some M)))) = Some X
         \<and> fdiv (fmul (fmul (Some M) (Some X)) (Some 100))
                (fadd (fmul (fsub (Some k) (fmul (Some k') (Some X))) (Some W))
                      (fmul (Some M) (Some X))) = Some r
         \<and> \<bar>r - s\<bar> \<le> s / 10 ^ 12"
proof -
  \<comment> \<open>the values of exact arithmetic\<close>
  define mS where "mS = s / M"
  define w0 where "w0 = 100 - s"
  define mW where "mW = w0 / W"
  define a where "a = k * mS"
  define c where "c = k' * mS"
  define T where "T = mW + c"
  define X where "X = a / T"
  define P where "P = M * X"
  define N where "N = P * 100"
  define q0 where "q0 = k' * X"
  define q1 where "q1 = k - q0"
  define D where "D = q1 * W + P"
  \<comment> \<open>the values of binary64 arithmetic\<close>
  define mS' where "mS' = fl (s / M)"
  define w0' where "w0' = fl (100 - s)"
  define mW' where "mW' = fl (w0' / W)"
  define a' where "a' = fl (k * mS')"
  define c' where "c' = fl (k' * mS')"
  define T' where "T' = fl (mW' + c')"
  define X' where "X' = fl (a' / T')"
  define P' where "P' = fl (M * X')"
  define N' where "N' = fl (P' * 100)"
  define q0' where "q0' = fl (k' * X')"
  define q1' where "q1' = fl (k - q0')"
  define q2' where "q2' = fl (q1' * W)"
  define D' where "D' = fl (q2' + P')"
  define r' where "r' = fl (N' / D')"
  define m :: real where "m = 2 powi (- 1021)"
  define d :: real where "d = 1 / 10 ^ 16"
  have d0: "0 \<le> d" "d \<le> 1 / 1000000" by (simp_all add: d_def)
  have m0: "0 < m" by (simp add: m_def)
  have "m * 1024 \<le> 2 powi (- 1000)" by (simp add: m_def power_int_def power_one_over)
  with s(1) have lo: "m \<le> s / 1024" by simp
  have "m * 64 \<le> 2 powi (- 46)" by (simp add: m_def power_int_def power_one_over)
  with s(3) have lo46: "m \<le> (100 - s) / 64" by simp
  have slt: "s < 100" by (rule s(2))
  have s0: "0 < s" using lo m0 by simp
  \<comment> \<open>bounds of the exact values\<close>
  have "s / 96 \<le> s / M" by (rule frac_le) (use M s0 in linarith)+
  moreover have "s / M \<le> 100 / 58" by (rule frac_le) (use M s0 s(2) in linarith)+
  ultimately have mSb: "s / 96 \<le> mS" "mS \<le> 2" unfolding mS_def by linarith+
  have mS0: "0 \<le> mS" using mSb(1) s0 by linarith
  have w0b: "0 < w0" "w0 \<le> 100" using s0 s(2) by (simp_all add: w0_def)
  have lo46': "m \<le> w0 / 64" using lo46 by (simp add: w0_def)
  have "w0 / 48 \<le> w0 / W" by (rule frac_le) (use W w0b in linarith)+
  moreover have "w0 / W \<le> 100 / 18" by (rule frac_le) (use W w0b in linarith)+
  ultimately have mWb: "w0 / 48 \<le> mW" "mW \<le> 6" unfolding mW_def by linarith+
  have "2 * (s / 96) \<le> k * mS" by (rule mult_mono) (use k mSb s0 in linarith)+
  moreover have "k * mS \<le> 4 * 2" by (rule mult_mono) (use k mSb mS0 in linarith)+
  ultimately have ab: "s / 48 \<le> a" "a \<le> 8" unfolding a_def by linarith+
  have "2 * (s / 96) \<le> k' * mS" by (rule mult_mono) (use k mSb s0 in linarith)+
  moreover have "k' * mS \<le> 4 * 2" by (rule mult_mono) (use k mSb mS0 in linarith)+
  ultimately have cb: "s / 48 \<le> c" "c \<le> 8" unfolding c_def by linarith+
  have "w0 / 48 = 100 / 48 - s / 48" by (simp add: w0_def diff_divide_distrib)
  with mWb cb have Tb: "2 \<le> T" "T \<le> 14" unfolding T_def by linarith+
  have a0: "0 \<le> a" using ab(1) s0 by linarith
  have "s / 48 / 14 \<le> a / T" by (rule frac_le) (use ab a0 Tb in linarith)+
  moreover have "a / T \<le> 8 / 2" by (rule frac_le) (use ab a0 Tb in linarith)+
  ultimately have Xb: "s / 672 \<le> X" "X \<le> 4" unfolding X_def by linarith+
  have X0: "0 \<le> X" using Xb(1) s0 by linarith
  have "1 * (s / 672) \<le> M * X" by (rule mult_mono) (use M Xb s0 in linarith)+
  moreover have "M * X \<le> 96 * 4" by (rule mult_mono) (use M Xb X0 in linarith)+
  ultimately have Pb: "s / 672 \<le> P" "P \<le> 384" unfolding P_def by linarith+
  have Nb: "s / 672 \<le> N" "N \<le> 38400" using Pb s0 unfolding N_def by linarith+
  have "k' * X \<le> 4 * 4" by (rule mult_mono) (use k Xb X0 in linarith)+
  moreover have "0 \<le> k' * X" using k X0 by simp
  ultimately have q0b: "0 \<le> q0" "q0 \<le> 16" unfolding q0_def by linarith+
  have q1b: "\<bar>q1\<bar> \<le> 16" using q0b k unfolding q1_def by linarith
  have TX: "T = (100 - s) / W + k' * (s / M)" "X = k * (s / M) / T"
    by (simp_all add: T_def mW_def w0_def c_def mS_def X_def a_def)
  have "0 < M" "0 < W" "0 < k" "0 \<le> k'" using M W k by simp_all
  note ideal = roundtrip_ideal [OF s0 s(2) this, folded TX(1), folded TX(2)]
  have DT: "D * T = 100 * k" using ideal(2) by (simp add: D_def q1_def q0_def P_def)
  have NT: "N * T = 100 * k * s" using ideal(3) by (simp add: N_def P_def)
  have T0: "0 < T" using Tb by simp
  have Deq: "D = 100 * k / T" using DT T0 by (simp add: field_simps)
  have "200 / 14 \<le> 100 * k / T" by (rule frac_le) (use k Tb in linarith)+
  moreover have "100 * k / T \<le> 400 / 2" by (rule frac_le) (use k Tb in linarith)+
  ultimately have Db: "14 \<le> D" "D \<le> 200" unfolding Deq by linarith+
  have ND: "N / D = s"
  proof -
    have "N / D = (N * T) / (D * T)" using T0 by simp
    also have "\<dots> = s" unfolding NT DT using k by simp
    finally show ?thesis .
  qed
  \<comment> \<open>computeXFromSalinity in binary64: relative errors\<close>
  have "\<bar>s / M - mS\<bar> \<le> 0 * mS" by (simp add: mS_def)
  note pre = this
  have "m \<le> mS" using lo mSb s0 by linarith
  note mS1 = fl_step [OF pre this [unfolded m_def] mSb(2), of "2 / 10 ^ 16", folded mS'_def]
  have mS: "\<bar>mS' - mS\<bar> \<le> 2 / 10 ^ 16 * mS" "fl64 (s / M) = Some mS'"
    by (rule mS1; simp)+
  have "\<bar>100 - s - w0\<bar> \<le> 0 * w0" by (simp add: w0_def)
  note pre = this
  have "m \<le> w0" using lo46' w0b by linarith
  note w01 = fl_step [OF pre this [unfolded m_def] w0b(2), of "2 / 10 ^ 16", folded w0'_def]
  have w0: "\<bar>w0' - w0\<bar> \<le> 2 / 10 ^ 16 * w0" "fl64 (100 - s) = Some w0'"
    by (rule w01; simp)+
  have "\<bar>w0' / W - w0 / W\<bar> \<le> 2 / 10 ^ 16 * (w0 / W)"
    by (rule rel_div(1) [OF w0(1) rel_exact]) (use W w0b in simp_all)
  note pre = this [folded mW_def]
  have "m \<le> mW" using lo46' mWb w0b by linarith
  note mW1 = fl_step [OF pre this [unfolded m_def] mWb(2), of "4 / 10 ^ 16", folded mW'_def]
  have mW: "\<bar>mW' - mW\<bar> \<le> 4 / 10 ^ 16 * mW" "fl64 (w0' / W) = Some mW'"
    by (rule mW1; simp)+
  have "\<bar>k * mS' - k * mS\<bar> \<le> 2 / 10 ^ 16 * (k * mS)"
    by (rule rel_mult [OF rel_exact mS(1)]) (use k mSb s0 in simp_all)
  note pre = this [folded a_def]
  have "m \<le> a" using lo ab s0 by linarith
  note a1 = fl_step [OF pre this [unfolded m_def] ab(2), of "4 / 10 ^ 16", folded a'_def]
  have a: "\<bar>a' - a\<bar> \<le> 4 / 10 ^ 16 * a" "fl64 (k * mS') = Some a'"
    by (rule a1; simp)+
  have "\<bar>k' * mS' - k' * mS\<bar> \<le> 2 / 10 ^ 16 * (k' * mS)"
    by (rule rel_mult [OF rel_exact mS(1)]) (use k mSb s0 in simp_all)
  note pre = this [folded c_def]
  have "m \<le> c" using lo cb s0 by linarith
  note c1 = fl_step [OF pre this [unfolded m_def] cb(2), of "4 / 10 ^ 16", folded c'_def]
  have c: "\<bar>c' - c\<bar> \<le> 4 / 10 ^ 16 * c" "fl64 (k' * mS') = Some c'"
    by (rule c1; simp)+
  have "\<bar>mW' + c' - (mW + c)\<bar> \<le> 4 / 10 ^ 16 * (mW + c)"
    by (rule rel_add [OF mW(1) c(1)])
  note pre = this [folded T_def]
  have "m \<le> T" using lo Tb s0 slt by linarith
  note T1 = fl_step [OF pre this [unfolded m_def] Tb(2), of "6 / 10 ^ 16", folded T'_def]
  have T: "\<bar>T' - T\<bar> \<le> 6 / 10 ^ 16 * T" "fl64 (mW' + c') = Some T'"
    by (rule T1; simp)+
  note dv = rel_div [OF a(1) T(1) a0 T0, of "11 / 10 ^ 16"]
  have T'0: "0 < T'" by (rule dv(2)) simp_all
  have "\<bar>a' / T' - a / T\<bar> \<le> 11 / 10 ^ 16 * (a / T)" by (rule dv(1)) simp_all
  note pre = this [folded X_def]
  have "m \<le> X" using lo Xb s0 by linarith
  note X1 = fl_step [OF pre this [unfolded m_def] Xb(2), of "13 / 10 ^ 16", folded X'_def]
  have X: "\<bar>X' - X\<bar> \<le> 13 / 10 ^ 16 * X" "fl64 (a' / T') = Some X'"
    by (rule X1; simp)+
  \<comment> \<open>computeSalinityFromX in binary64: the numerator\<close>
  have "\<bar>M * X' - M * X\<bar> \<le> 13 / 10 ^ 16 * (M * X)"
    by (rule rel_mult [OF rel_exact X(1)]) (use M X0 in simp_all)
  note pre = this [folded P_def]
  have "m \<le> P" using lo Pb s0 by linarith
  note P1 = fl_step [OF pre this [unfolded m_def] Pb(2), of "15 / 10 ^ 16", folded P'_def]
  have P: "\<bar>P' - P\<bar> \<le> 15 / 10 ^ 16 * P" "fl64 (M * X') = Some P'"
    by (rule P1; simp)+
  have P0: "0 \<le> P" using Pb(1) s0 by simp
  have "\<bar>P' * 100 - P * 100\<bar> \<le> 15 / 10 ^ 16 * (P * 100)"
    by (rule rel_mult [OF P(1) rel_exact]) (use P0 in simp_all)
  note pre = this [folded N_def]
  have "m \<le> N" using lo Nb s0 by linarith
  note N1 = fl_step [OF pre this [unfolded m_def] Nb(2), of "17 / 10 ^ 16", folded N'_def]
  have N: "\<bar>N' - N\<bar> \<le> 17 / 10 ^ 16 * N" "fl64 (P' * 100) = Some N'"
    by (rule N1; simp)+
  \<comment> \<open>the denominator: absolute errors\<close>
  have Xabs: "\<bar>X' - X\<bar> \<le> 52 * d"
    by (rule rel_abs [OF X(1) X0 Xb(2)]) (simp_all add: d_def)
  have X'b: "\<bar>X'\<bar> \<le> 5" using Xabs X0 Xb(2) d0 by linarith
  have ak': "\<bar>k'\<bar> \<le> 4" using k by simp
  have zq0: "\<bar>k' * X'\<bar> \<le> 20" using abs_mult_le [OF ak' X'b] by simp
  note q01 = fl_abs_step [OF zq0, of "30 * d", folded q0'_def]
  have q0: "\<bar>q0' - k' * X'\<bar> \<le> 30 * d" "fl64 (k' * X') = Some q0'"
    by (rule q01; simp add: d_def)+
  have "\<bar>k' * (X' - X)\<bar> \<le> 4 * (52 * d)" by (rule abs_mult_le [OF ak' Xabs])
  then have dq0: "\<bar>k' * X' - q0\<bar> \<le> 208 * d" by (simp add: q0_def algebra_simps)
  have eq0: "\<bar>q0' - q0\<bar> \<le> 238 * d" using q0(1) dq0 by linarith
  have zq1: "\<bar>k - q0'\<bar> \<le> 25" using eq0 q0b k d0 by linarith
  note q11 = fl_abs_step [OF zq1, of "30 * d", folded q1'_def]
  have q1: "\<bar>q1' - (k - q0')\<bar> \<le> 30 * d" "fl64 (k - q0') = Some q1'"
    by (rule q11; simp add: d_def)+
  have eq1: "\<bar>q1' - q1\<bar> \<le> 268 * d" using q1(1) eq0 unfolding q1_def by linarith
  have q1'b: "\<bar>q1'\<bar> \<le> 21" using eq1 q1b d0 by linarith
  have aW: "\<bar>W\<bar> \<le> 181 / 10" using W by simp
  have zq2: "\<bar>q1' * W\<bar> \<le> 381" using abs_mult_le [OF q1'b aW] by simp
  note q21 = fl_abs_step [OF zq2, of "430 * d", folded q2'_def]
  have q2: "\<bar>q2' - q1' * W\<bar> \<le> 430 * d" "fl64 (q1' * W) = Some q2'"
    by (rule q21; simp add: d_def)+
  have "\<bar>(q1' - q1) * W\<bar> \<le> 268 * d * (181 / 10)" by (rule abs_mult_le [OF eq1 aW])
  then have dq2: "\<bar>q1' * W - q1 * W\<bar> \<le> 4851 * d" using d0 by (simp add: algebra_simps)
  have eq2: "\<bar>q2' - q1 * W\<bar> \<le> 5300 * d" using q2(1) dq2 by linarith
  have Pabs: "\<bar>P' - P\<bar> \<le> 5760 * d"
    by (rule rel_abs [OF P(1) P0 Pb(2)]) (simp_all add: d_def)
  have zD: "\<bar>q2' + P'\<bar> \<le> 800" using q2(1) zq2 Pabs Pb P0 d0 by linarith
  note D1 = fl_abs_step [OF zD, of "900 * d", folded D'_def]
  have D2: "\<bar>D' - (q2' + P')\<bar> \<le> 900 * d" "fl64 (q2' + P') = Some D'"
    by (rule D1; simp add: d_def)+
  have Dabs: "\<bar>D' - D\<bar> \<le> 12000 * d" using D2(1) eq2 Pabs unfolding D_def by linarith
  have "900 / 10 ^ 16 * 14 \<le> 900 / 10 ^ 16 * D"
    using Db(1) by (intro mult_left_mono) simp_all
  moreover have "12000 * d \<le> 900 / 10 ^ 16 * 14" by (simp add: d_def)
  ultimately have Drel: "\<bar>D' - D\<bar> \<le> 900 / 10 ^ 16 * D" using Dabs by linarith
  \<comment> \<open>the quotient\<close>
  have N0: "0 \<le> N" using Nb(1) s0 by simp
  have D0: "0 < D" using Db by simp
  note dv2 = rel_div [OF N(1) Drel N0 D0, of "918 / 10 ^ 16"]
  have D'0: "0 < D'" by (rule dv2(2)) simp_all
  have "\<bar>N' / D' - N / D\<bar> \<le> 918 / 10 ^ 16 * (N / D)" by (rule dv2(1)) simp_all
  note pre = this [unfolded ND]
  have "m \<le> s" "s \<le> 100" using lo s0 slt by linarith+
  note r1 = fl_step [OF pre this(1) [unfolded m_def] this(2), of "920 / 10 ^ 16", folded r'_def]
  have r: "\<bar>r' - s\<bar> \<le> 920 / 10 ^ 16 * s" "fl64 (N' / D') = Some r'"
    by (rule r1; simp)+
  have "920 / 10 ^ 16 * s \<le> 1 / 10 ^ 12 * s" using s0 by (intro mult_right_mono) simp_all
  with r(1) have fin: "\<bar>r' - s\<bar> \<le> s / 10 ^ 12" by simp
  \<comment> \<open>the two calls\<close>
  have M0: "M \<noteq> 0" "W \<noteq> 0" "T' \<noteq> 0" "D' \<noteq> 0" using M W T'0 D'0 by simp_all
  have fwd: "fdiv (fmul (Some k) (fdiv (Some s) (Some M)))
                (fadd (fdiv (fsub (Some 100) (Some s)) (Some W))
                      (fmul (Some k') (fdiv (Some s) (Some M)))) = Some X'"
    by (simp add: fdiv_def fmul_def fadd_def fsub_def M0 mS(2) w0(2) mW(2) a(2) c(2) T(2) X(2))
  have bwd: "fdiv (fmul (fmul (Some M) (Some X')) (Some 100))
                (fadd (fmul (fsub (Some k) (fmul (Some k') (Some X'))) (Some W))
                      (fmul (Some M) (Some X'))) = Some r'"
    by (simp add: fdiv_def fmul_def fadd_def fsub_def M0 P(2) N(2) q0(2) q1(2) q2(2) D2(2) r(2))
  from fwd bwd fin show ?thesis by blast
qed

lemma tiny_salinity: "(2::real) powi (- 1000) \<le> 1 / 10 ^ 300"
  by (simp add: power_int_def power_one_over)

lemma roundtrip64_NaCl:
  assumes "2 powi (- 1000) \<le> s" and "s < 100" and "2 powi (- 46) \<le> 100 - s"
  shows "\<exists>X r. computeXFromSalinity64 s ''NaCl'' = Inr (Some X)
           \<and> computeSalinityFromX64 X ''NaCl'' = Inr (Some r) \<and> \<bar>r - s\<bar> \<le> s / 10 ^ 12"
  using roundtrip64_core [of "1028087352435671 / 17592186044416"
          "5070850518435947 / 281474976710656" 2 2 s] assms
  by (simp add: computeXFromSalinity64_def computeSalinityFromX64_def saltProps_def Let_def
        lit_values)

lemma roundtrip64_KCl:
  assumes "2 powi (- 1000) \<le> s" and "s < 100" and "2 powi (- 46) \<le> 100 - s"
  shows "\<exists>X r. computeXFromSalinity64 s ''KCl'' = Inr (Some X)
           \<and> computeSalinityFromX64 X ''KCl'' = Inr (Some r) \<and> \<bar>r - s\<bar> \<le> s / 10 ^ 12"
  using roundtrip64_core [of "5245989878444851 / 70368744177664"
          "5070850518435947 / 281474976710656" 2 2 s] assms
  by (simp add: computeXFromSalinity64_def computeSalinityFromX64_def saltProps_def Let_def
        lit_values)

lemma roundtrip64_MgCl2:
  assumes "2 powi (- 1000) \<le> s" and "s < 100" and "2 powi (- 46) \<le> 100 - s"
  shows "\<exists>X r. computeXFromSalinity64 s ''MgCl2'' = Inr (Some X)
           \<and> computeSalinityFromX64 X ''MgCl2'' = Inr (Some r) \<and> \<bar>r - s\<bar> \<le> s / 10 ^ 12"
  using roundtrip64_core [of "6699808133155389 / 70368744177664"
          "5070850518435947 / 281474976710656" 3 4 s] assms
  by (simp add: computeXFromSalinity64_def computeSalinityFromX64_def saltProps_def Let_def
        lit_values)

text \<open>
  C3, amended. For every salt of the catalog (NaCl, KCl, MgCl2) and every binary64
  salinity \<open>s\<close> with \<open>1e-300 \<le> s < 100\<close>, the binary64 \<open>computeXFromSalinity\<close> returns a
  finite \<open>X\<close> and the binary64 \<open>computeSalinityFromX\<close> of it returns a finite \<open>r\<close> within
  relative error \<open>1e-9\<close> and absolute error \<open>1e-6\<close> of \<open>s\<close>.
\<close>

theorem salinity_roundtrip64:
  assumes key: "saltKey \<in> {''NaCl'', ''KCl'', ''MgCl2''}"
    and s: "fl s = s" "1 / 10 ^ 300 \<le> s" "s < 100"
  shows "\<exists>X r. computeXFromSalinity64 s saltKey = Inr (Some X)
           \<and> computeSalinityFromX64 X saltKey = Inr (Some r)
           \<and> \<bar>r - s\<bar> \<le> \<bar>s\<bar> / 10 ^ 9 \<and> \<bar>r - s\<bar> \<le> 1 / 10 ^ 6"
proof -
  have "(0::real) < 1 / 10 ^ 300" by simp
  with s(2) have s0: "0 < s" by linarith
  have lo: "2 powi (- 1000) \<le> s" using tiny_salinity s(2) by (rule order_trans)
  have hi: "2 powi (- 46) \<le> 100 - s" by (rule double_below_100 [OF s(1) s0 s(3)])
  from key roundtrip64_NaCl [OF lo s(3) hi] roundtrip64_KCl [OF lo s(3) hi]
    roundtrip64_MgCl2 [OF lo s(3) hi]
  obtain X r where X: "computeXFromSalinity64 s saltKey = Inr (Some X)"
    and r: "computeSalinityFromX64 X saltKey = Inr (Some r)"
    and e: "\<bar>r - s\<bar> \<le> s / 10 ^ 12" by auto
  have "s / 10 ^ 12 \<le> s / 10 ^ 9" using s0 by (intro divide_left_mono) simp_all
  moreover have "s / 10 ^ 12 \<le> 100 / 10 ^ 12" using s(3) by (intro divide_right_mono) simp_all
  moreover have "(100 / 10 ^ 12 :: real) \<le> 1 / 10 ^ 6" by simp
  ultimately have "\<bar>r - s\<bar> \<le> \<bar>s\<bar> / 10 ^ 9" "\<bar>r - s\<bar> \<le> 1 / 10 ^ 6"
    using e s0 by simp_all
  with X r show ?thesis by blast
qed

lemma fl_seven_halves: "fl (7 / 2) = 7 / 2"
  by (subst fl_eval [where e = "1"]) (simp_all add: rne_def Let_def power_int_def power_one_over)

theorem salinity_roundtrip64_witness:
  "''NaCl'' \<in> {''NaCl'', ''KCl'', ''MgCl2''} \<and> fl (7 / 2) = 7 / 2
   \<and> 1 / 10 ^ 300 \<le> (7 / 2 :: real) \<and> (7 / 2 :: real) < 100
   \<and> (\<exists>X r. computeXFromSalinity64 (7 / 2) ''NaCl'' = Inr (Some X)
           \<and> computeSalinityFromX64 X ''NaCl'' = Inr (Some r)
           \<and> \<bar>r - 7 / 2\<bar> \<le> \<bar>7 / 2\<bar> / 10 ^ 9 \<and> \<bar>r - 7 / 2\<bar> \<le> 1 / 10 ^ 6)"
  using salinity_roundtrip64 [of "''NaCl''" "7 / 2"] by (simp add: fl_seven_halves)

lemma lnaw_less_iff: "computeLnawFromX a < computeLnawFromX b \<longleftrightarrow> b < a"
proof
  assume l: "computeLnawFromX a < computeLnawFromX b"
  show "b < a"
  proof (rule ccontr)
    assume "\<not> b < a"
    then consider "a = b" | "a < b" by fastforce
    then show False
    proof cases
      case 1 with l show False by simp
    next
      case 2 from lnaw_strict_antimono [OF 2] l show False by simp
    qed
  qed
next
  assume "b < a" then show "computeLnawFromX a < computeLnawFromX b"
    by (rule lnaw_strict_antimono)
qed

lemma bisect_bracket:
  "bisect n t low high = (l, h) \<Longrightarrow> low \<le> high \<Longrightarrow>
     low \<le> l \<and> l \<le> h \<and> h \<le> high \<and> h - l = (high - low) / 2 ^ n
     \<and> (l = low \<or> computeLnawFromX l > t) \<and> (h = high \<or> computeLnawFromX h \<le> t)"
proof (induction n arbitrary: low high)
  case 0
  then show ?case by simp
next
  case (Suc n)
  define mid where "mid = (low + high) / 2"
  from Suc.prems(2) have m: "low \<le> mid" "mid \<le> high" by (simp_all add: mid_def)
  have hm: "high - mid = (high - low) / 2" and ml: "mid - low = (high - low) / 2"
    by (simp_all add: mid_def field_simps)
  show ?case
  proof (cases "computeLnawFromX mid - t > 0")
    case True
    with Suc.prems(1) have b: "bisect n t mid high = (l, h)"
      by (simp add: Let_def mid_def)
    from Suc.IH [OF b m(2)]
    have i: "mid \<le> l" "l \<le> h" "h \<le> high" "h - l = (high - mid) / 2 ^ n"
      "l = mid \<or> computeLnawFromX l > t" "h = high \<or> computeLnawFromX h \<le> t"
      by simp_all
    from i(5) True have "computeLnawFromX l > t" by auto
    moreover have "h - l = (high - low) / 2 ^ Suc n" by (simp add: i(4) hm)
    moreover from i(1) m(1) have "low \<le> l" by simp
    ultimately show ?thesis using i(2,3,6) by simp
  next
    case False
    with Suc.prems(1) have b: "bisect n t low mid = (l, h)"
      by (simp add: Let_def mid_def)
    from Suc.IH [OF b m(1)]
    have i: "low \<le> l" "l \<le> h" "h \<le> mid" "h - l = (mid - low) / 2 ^ n"
      "l = low \<or> computeLnawFromX l > t" "h = mid \<or> computeLnawFromX h \<le> t"
      by simp_all
    from i(6) False have "computeLnawFromX h \<le> t" by auto
    moreover have "h - l = (high - low) / 2 ^ Suc n" by (simp add: i(4) ml)
    moreover from i(3) m(2) have "h \<le> high" by simp
    ultimately show ?thesis using i(1,2,5) by simp
  qed
qed

lemma expandHigh_range:
  assumes "0 < X" "X < 0.3"
  shows "expandHigh (computeLnawFromX X) 0.2 = (if 0.2 < X then 0.3 else 0.2)"
proof (cases "0.2 < X")
  case True
  then have a: "computeLnawFromX 0.2 - computeLnawFromX X > 0"
    using lnaw_less_iff [of X "0.2"] by simp
  have b: "\<not> computeLnawFromX 0.3 - computeLnawFromX X > 0"
    using lnaw_less_iff [of "0.3" X] assms(2) by simp
  have "expandHigh (computeLnawFromX X) 0.2 = expandHigh (computeLnawFromX X) 0.3"
    using a by (subst expandHigh.simps) simp
  also have "\<dots> = 0.3" using b by (subst expandHigh.simps) simp
  finally show ?thesis using True by simp
next
  case False
  then have "\<not> computeLnawFromX 0.2 - computeLnawFromX X > 0"
    using lnaw_less_iff [of X "0.2"] by simp
  then have "expandHigh (computeLnawFromX X) 0.2 = 0.2"
    by (subst expandHigh.simps) simp
  with False show ?thesis by simp
qed

text \<open>
  C6. The bisection root finder inverts the activity correlation: for every \<open>X\<close> in
  the open interval \<open>(0, 0.3)\<close>, \<open>solveXFromLnaw (computeLnawFromX X)\<close>, which starts
  from the bracket \<open>low = 0\<close>, \<open>high = 0.2\<close>, widens \<open>high\<close> by \<open>0.1\<close> while
  \<open>f high > 0\<close> and \<open>high < 1\<close>, and then halves the bracket 50 times, returns a
  value within \<open>1e-6\<close> of \<open>X\<close>.
\<close>

theorem solveXFromLnaw_inverts_computeLnawFromX:
  assumes "0 < X" "X < 0.3"
  shows "\<bar>solveXFromLnaw (computeLnawFromX X) - X\<bar> < 1 / 10 ^ 6"
proof -
  define t where "t = computeLnawFromX X"
  define H where "H = expandHigh t 0.2"
  obtain l h where lh: "bisect 50 t 0 H = (l, h)" by (cases "bisect 50 t 0 H")
  have H: "H = (if 0.2 < X then 0.3 else 0.2)"
    unfolding H_def t_def by (rule expandHigh_range [OF assms])
  then have H0: "0 \<le> H" and H3: "H \<le> 0.3" and XH: "X \<le> H"
    using assms by (auto split: if_splits)
  from bisect_bracket [OF lh H0]
  have w: "h - l = H / 2 ^ 50" and lo: "l = 0 \<or> computeLnawFromX l > t"
    and hi: "h = H \<or> computeLnawFromX h \<le> t" and "l \<le> h"
    by simp_all
  from lo assms(1) have lX: "l < X" unfolding t_def using lnaw_less_iff [of X l] by auto
  from hi XH have Xh: "X \<le> h" unfolding t_def using lnaw_less_iff [of X h] by auto
  have r: "solveXFromLnaw t = (l + h) / 2"
    unfolding solveXFromLnaw_def Let_def H_def [symmetric] lh by simp
  have "\<bar>(l + h) / 2 - X\<bar> \<le> (h - l) / 2" using lX Xh by (simp add: abs_le_iff field_simps)
  also have "\<dots> = H / 2 ^ 51" by (simp add: w)
  also have "\<dots> \<le> 0.3 / 2 ^ 51" using H3 by (simp add: divide_right_mono)
  also have "\<dots> < 1 / 10 ^ 6" by simp
  finally show ?thesis unfolding r [unfolded t_def] t_def .
qed

theorem solveXFromLnaw_inverts_computeLnawFromX_witness:
  "(0::real) < 0.1 \<and> (0.1::real) < 0.3
   \<and> \<bar>solveXFromLnaw (computeLnawFromX 0.1) - 0.1\<bar> < 1 / 10 ^ 6"
  using solveXFromLnaw_inverts_computeLnawFromX [of "0.1"] by simp

section \<open>Unknown salt keys\<close>

text \<open>
  The claim C9 as stated fails for a key that \<open>saltProps\<close> inherits from
  \<open>Object.prototype\<close>: for \<open>constructor\<close>, which is not a catalog key, the
  destructuring succeeds with two \<open>undefined\<close> fields and the function returns
  \<open>NaN\<close>, a number, instead of failing.
\<close>

theorem computeXFromSalinity_inherited_key_returns_NaN:
  "''constructor'' \<notin> {''NaCl'', ''KCl'', ''MgCl2''}
   \<and> computeXFromSalinity 8 ''constructor'' = Inr None"
  by (simp add: computeXFromSalinity_def saltProps_def objectPrototypeNames_def)

text \<open>
  C9, amended. For every key that names no property of \<open>saltProps\<close>, that is, a key
  that is neither NaCl, KCl, MgCl2 nor a name inherited from \<open>Object.prototype\<close>,
  and for every salinity, \<open>computeXFromSalinity\<close> fails, and the failure is the
  \<open>TypeError\<close> of the destructuring; it returns no number.
\<close>

theorem computeXFromSalinity_unknown_key_fails:
  assumes "key \<notin> {''NaCl'', ''KCl'', ''MgCl2''}" and "key \<notin> set objectPrototypeNames"
  shows "computeXFromSalinity salinity key = Inl TypeError"
  using assms by (simp add: computeXFromSalinity_def saltProps_def)

theorem computeXFromSalinity_unknown_key_fails_witness:
  "''LiCl'' \<notin> {''NaCl'', ''KCl'', ''MgCl2''} \<and> ''LiCl'' \<notin> set objectPrototypeNames
   \<and> computeXFromSalinity 8 ''LiCl'' = Inl TypeError"
  using computeXFromSalinity_unknown_key_fails [of "''LiCl''" 8]
  by (simp add: objectPrototypeNames_def)

section \<open>The polynomial fit\<close>

lemmas fit_defs = fitPolynomial_def eliminate_def powerSums_def normalMatrix_def
  rightHandSide_def gaussStep_def findMaxRow_def pivotOf_def scaleFrom_def elimRow_def
  num2_def numAt_def evalPolynomial_def

lemma gaussStep_shape:
  "length (fst (snd (gaussStep d i Acd))) = d + 1"
  "\<exists>p. snd (snd (gaussStep d i Acd)) = snd (snd Acd) @ [p] \<and> p \<noteq> 0"
  by (simp_all add: gaussStep_def Let_def pivotOf_def)

lemma fold_gaussStep_divisors:
  "\<exists>ps. snd (snd (fold (gaussStep d) is (A, c, ds))) = ds @ ps
         \<and> length ps = length is \<and> 0 \<notin> set ps"
proof (induction "is" arbitrary: A c ds)
  case Nil
  then show ?case by simp
next
  case (Cons i "is")
  obtain A' c' ds' where g: "gaussStep d i (A, c, ds) = (A', c', ds')"
    by (cases "gaussStep d i (A, c, ds)")
  from gaussStep_shape(2) [of d i "(A, c, ds)"] g
  obtain p where p: "ds' = ds @ [p]" "p \<noteq> 0" by auto
  from Cons.IH [of A' c' ds'] obtain ps
    where ps: "snd (snd (fold (gaussStep d) is (A', c', ds'))) = ds' @ ps"
      "length ps = length is" "0 \<notin> set ps"
    by blast
  have "snd (snd (fold (gaussStep d) (i # is) (A, c, ds))) = ds @ (p # ps)"
    using g ps(1) p(1) by simp
  moreover have "length (p # ps) = length (i # is)" using ps(2) by simp
  moreover have "0 \<notin> set (p # ps)" using ps(3) p(2) by simp
  ultimately show ?case by blast
qed

lemma eliminate_shape:
  "length (fst (eliminate xs ys d)) = d + 1"
  "length (snd (eliminate xs ys d)) = d + 1"
  "0 \<notin> set (snd (eliminate xs ys d))"
proof -
  let ?A = "normalMatrix (powerSums xs d) d" and ?b = "rightHandSide xs ys d"
  have u: "[0..<d + 1] = [0..<d] @ [d]" by simp
  show "length (fst (eliminate xs ys d)) = d + 1"
    unfolding eliminate_def Let_def u by (simp add: gaussStep_shape(1))
  from fold_gaussStep_divisors [of d "[0..<d + 1]" ?A ?b "[]"]
  obtain ps where "snd (snd (fold (gaussStep d) [0..<d + 1] (?A, ?b, []))) = ps"
    "length ps = d + 1" "0 \<notin> set ps"
    by auto
  then show "length (snd (eliminate xs ys d)) = d + 1" "0 \<notin> set (snd (eliminate xs ys d))"
    by (simp_all add: eliminate_def Let_def)
qed

text \<open>
  The claim C10 as stated fails for the empty sample list: \<open>d\<close> is \<open>-1\<close> and
  \<open>new Array(2 * d + 1)\<close> throws a \<open>RangeError\<close>.
\<close>

theorem fitPolynomial_empty_raises: "fitPolynomial [] [] 3 = Inl RangeError"
  by (simp add: fitPolynomial_def)

text \<open>
  C10, amended. For every non-empty sample list (repeated or degenerate abscissas
  included) and every degree that is not negative, \<open>fitPolynomial\<close> returns, without
  raising, a coefficient array of length \<open>min degree (n - 1) + 1\<close>, and the
  elimination never divides by zero: it runs that many rounds and the divisor of
  every round is different from zero.
\<close>

theorem fitPolynomial_total:
  assumes "xs \<noteq> []" and "0 \<le> degree"
  shows "(\<exists>c. fitPolynomial xs ys degree = Inr c
            \<and> int (length c) = min degree (int (length xs) - 1) + 1)
         \<and> int (length (fitDivisors xs ys degree)) = min degree (int (length xs) - 1) + 1
         \<and> 0 \<notin> set (fitDivisors xs ys degree)"
proof -
  define d where "d = min degree (int (length xs) - 1)"
  from assms have d0: "0 \<le> d" by (cases xs) (simp_all add: d_def)
  have f: "fitPolynomial xs ys degree = Inr (fst (eliminate xs ys (nat d)))"
    using d0 by (simp add: fitPolynomial_def Let_def d_def [symmetric])
  have g: "fitDivisors xs ys degree = snd (eliminate xs ys (nat d))"
    using d0 by (simp add: fitDivisors_def Let_def d_def [symmetric])
  from eliminate_shape [of xs ys "nat d"] d0 show ?thesis
    unfolding f g d_def [symmetric] by simp
qed

text \<open>
  The witness has a repeated abscissa: the second round finds the diagonal entry
  zero and divides by \<open>1e-12\<close> instead.
\<close>

theorem fitPolynomial_total_witness:
  "[5, 5] \<noteq> ([] :: real list) \<and> (0::int) \<le> 1
   \<and> (\<exists>c. fitPolynomial [5, 5] [280, 285] 1 = Inr c
         \<and> int (length c) = min 1 (int (length [5, 5 :: real]) - 1) + 1)
   \<and> int (length (fitDivisors [5, 5] [280, 285] 1)) = min 1 (int (length [5, 5 :: real]) - 1) + 1
   \<and> 0 \<notin> set (fitDivisors [5, 5] [280, 285] 1)
   \<and> fitDivisors [5, 5] [280, 285] 1 = [10, 1 / 10 ^ 12]"
proof -
  have "fitDivisors [5, 5] [280, 285] 1 = [10, 1 / 10 ^ 12]"
    by (simp add: fitDivisors_def fit_defs Let_def upt_rec nth_Cons')
  with fitPolynomial_total [of "[5, 5]" 1 "[280, 285]"] show ?thesis by simp
qed

section \<open>The fit caches and the custom gas\<close>

lemma fitA: "fitPolynomial [5, 10] [280, 285] 1 = Inr [Some 275, Some 1]"
  by (simp add: fit_defs Let_def upt_rec nth_Cons')

lemma fitB: "fitPolynomial [5, 10] [290, 295] 1 = Inr [Some 285, Some 1]"
  by (simp add: fit_defs Let_def upt_rec nth_Cons')

lemma firstA:
  "getT0AtPressure (pgCustom [(280, 5), (285, 10)]) noCaches ''Custom'' 5 ''poly''
     = (Inr (Some 280), noCaches\<lparr>t0FitCache := [''Custom'' \<mapsto> [Some 275, Some 1]]\<rparr>)"
  by (simp add: getT0AtPressure_def getGasObject_def pgCustom_def noCaches_def fitA
        evalPolynomial_def num2_def)

lemma getT0AtPressure_cached_poly:
  assumes "t0FitCache cs ''Custom'' = Some co" and "customTPData pg \<noteq> []"
  shows "getT0AtPressure pg cs ''Custom'' P ''poly'' = (Inr (evalPolynomial co P), cs)"
  using assms by (simp add: getT0AtPressure_def getGasObject_def)

lemma getT0AtPressure_cached_spline:
  assumes "splineCache cs ''Custom'' = Some sp" and "customTPData pg \<noteq> []"
  shows "getT0AtPressure pg cs ''Custom'' P ''spline'' = (Inr (evalMonotoneSpline sp P), cs)"
  using assms by (simp add: getT0AtPressure_def getGasObject_def)

lemma splineA:
  "buildMonotoneSpline [5, 10] [280, 285]
     = Inr \<lparr>sx = [5, 10], sy = [280, 285], sh = [5], sd = [Some 1, Some 1]\<rparr>"
  by (simp add: buildMonotoneSpline_def Let_def numDiv_def num2_def numAt_def jsDiv_def upt_rec)

text \<open>
  C2 does not hold of the code. Both caches are keyed by the gas key alone, and
  \<open>Custom\<close> is a key like any other. A first call with the custom points
  \<open>(280 K, 5 MPa), (285 K, 10 MPa)\<close> at 5 MPa returns 280 and leaves the fit
  \<open>275 + P\<close> in \<open>t0FitCache\<close> under \<open>Custom\<close>. A second call, after the points were
  changed to \<open>(290 K, 5 MPa), (295 K, 10 MPa)\<close>, still returns 280, whereas a fit of
  the current points gives 290. The spline cache behaves in the same way.
\<close>

theorem custom_fit_is_cached:
  "fst (getT0AtPressure (pgCustom [(280, 5), (285, 10)]) noCaches ''Custom'' 5 ''poly'')
     = Inr (Some 280)
   \<and> t0FitCache (snd (getT0AtPressure (pgCustom [(280, 5), (285, 10)]) noCaches
                        ''Custom'' 5 ''poly'')) ''Custom''
     = Some [Some 275, Some 1]
   \<and> fst (getT0AtPressure (pgCustom [(290, 5), (295, 10)])
            (snd (getT0AtPressure (pgCustom [(280, 5), (285, 10)]) noCaches ''Custom'' 5 ''poly''))
            ''Custom'' 5 ''poly'')
     = Inr (Some 280)
   \<and> fst (getT0AtPressure (pgCustom [(290, 5), (295, 10)]) noCaches ''Custom'' 5 ''poly'')
     = Inr (Some 290)
   \<and> fst (getT0AtPressure (pgCustom [(290, 5), (295, 10)])
            (snd (getT0AtPressure (pgCustom [(280, 5), (285, 10)]) noCaches ''Custom'' 5 ''spline''))
            ''Custom'' 5 ''spline'')
     = Inr (Some 280)"
proof -
  have "getT0AtPressure (pgCustom [(290, 5), (295, 10)])
          (noCaches\<lparr>t0FitCache := [''Custom'' \<mapsto> [Some 275, Some 1]]\<rparr>) ''Custom'' 5 ''poly''
        = (Inr (evalPolynomial [Some 275, Some 1] 5),
           noCaches\<lparr>t0FitCache := [''Custom'' \<mapsto> [Some 275, Some 1]]\<rparr>)"
    by (rule getT0AtPressure_cached_poly) (simp_all add: pgCustom_def)
  moreover have "evalPolynomial [Some 275, Some 1] 5 = Some 280"
    by (simp add: evalPolynomial_def num2_def)
  moreover have "fst (getT0AtPressure (pgCustom [(290, 5), (295, 10)]) noCaches ''Custom'' 5 ''poly'')
     = Inr (Some 290)"
    by (simp add: getT0AtPressure_def getGasObject_def pgCustom_def noCaches_def fitB
        evalPolynomial_def num2_def)
  moreover have "fst (getT0AtPressure (pgCustom [(290, 5), (295, 10)])
            (snd (getT0AtPressure (pgCustom [(280, 5), (285, 10)]) noCaches ''Custom'' 5 ''spline''))
            ''Custom'' 5 ''spline'')
     = Inr (Some 280)"
    by (simp add: getT0AtPressure_def getGasObject_def pgCustom_def noCaches_def splineA
        evalMonotoneSpline_def numAt_def Let_def)
  ultimately show ?thesis by (simp add: firstA)
qed

section \<open>The one-dimensional sweep: emission\<close>

lemma computeSalinityFromX_no_error:
  "saltProps saltKey \<noteq> Undefined \<Longrightarrow> computeSalinityFromX X saltKey \<noteq> Inl e"
  by (cases "saltProps saltKey") (simp_all add: computeSalinityFromX_def)

lemma sweepStep_infeasible:
  assumes "saltProps saltKey \<noteq> Undefined"
    and "\<not> stepFeasible beta T0 dInit saltKey e"
  shows "sweepStep beta T0 dInit saltKey s e = Inr None"
  using assms computeSalinityFromX_no_error [OF assms(1)]
  by (auto simp: sweepStep_def stepFeasible_def Let_def split: option.splits sum.splits)

lemma sweepStep_feasible:
  assumes "stepFeasible beta T0 dInit saltKey e"
  shows "\<exists>p d. sweepStep beta T0 dInit saltKey s e = Inr (Some p) \<and> dT_extra p = e
           \<and> dInit = Some d \<and> d + e < T0 \<and> tmax p = T0 - (d + e) \<and> lnawValue p < 0
           \<and> 0 < mas p"
  using assms
  by (auto simp: sweepStep_def stepFeasible_def Let_def split: option.splits sum.splits)

lemma sweepStep_emitted:
  assumes "sweepStep beta T0 dInit saltKey s e = Inr (Some p)"
  shows "stepFeasible beta T0 dInit saltKey e"
  using assms
  by (auto simp: sweepStep_def stepFeasible_def Let_def split: option.splits sum.splits if_splits)

lemma sweepLoop_filter:
  assumes "saltProps saltKey \<noteq> Undefined"
  shows "\<exists>ps. sweepLoop (sweepStep beta T0 dInit saltKey s) es = Inr ps
           \<and> map dT_extra ps = filter (stepFeasible beta T0 dInit saltKey) es
           \<and> (\<forall>p \<in> set ps. \<exists>d. dInit = Some d \<and> d + dT_extra p < T0
                               \<and> tmax p = T0 - (d + dT_extra p))"
proof (induction es)
  case Nil
  then show ?case by simp
next
  case (Cons e es)
  then obtain ps where ps: "sweepLoop (sweepStep beta T0 dInit saltKey s) es = Inr ps"
    "map dT_extra ps = filter (stepFeasible beta T0 dInit saltKey) es"
    "\<forall>p \<in> set ps. \<exists>d. dInit = Some d \<and> d + dT_extra p < T0 \<and> tmax p = T0 - (d + dT_extra p)"
    by blast
  show ?case
  proof (cases "stepFeasible beta T0 dInit saltKey e")
    case True
    from sweepStep_feasible [OF True, of s] obtain p d
      where p: "sweepStep beta T0 dInit saltKey s e = Inr (Some p)" "dT_extra p = e"
        "dInit = Some d" "d + e < T0" "tmax p = T0 - (d + e)"
      by blast
    with ps True show ?thesis by auto
  next
    case False
    from sweepStep_infeasible [OF assms False, of s] ps False show ?thesis by auto
  qed
qed

lemma fitPolynomial_error: "fitPolynomial xs ys deg = Inl e \<Longrightarrow> e = RangeError"
  by (simp add: fitPolynomial_def Let_def split: if_splits)

lemma buildMonotoneSpline_error: "buildMonotoneSpline x y = Inl e \<Longrightarrow> e = RangeError"
  by (simp add: buildMonotoneSpline_def Let_def split: if_splits)

lemma getT0AtPressure_error:
  "getT0AtPressure pg cs gasKey P method = (Inl e, cs') \<Longrightarrow> e = RangeError"
  by (auto simp: getT0AtPressure_def Let_def
      split: property.splits option.splits if_splits sum.splits
      dest: fitPolynomial_error buildMonotoneSpline_error)

lemma computeXFromSalinity_error:
  "computeXFromSalinity s k = Inl e \<Longrightarrow> e = TypeError \<and> saltProps k = Undefined"
  by (auto simp: computeXFromSalinity_def Let_def split: property.splits if_splits)

lemma computeXFromSalinity_known:
  "computeXFromSalinity s k = Inr X \<Longrightarrow> saltProps k \<noteq> Undefined"
  by (auto simp: computeXFromSalinity_def Let_def split: property.splits if_splits)

lemma computeBeta_error: "computeBeta pg k = Inl e \<Longrightarrow> e = TypeError"
  by (auto simp: computeBeta_def Let_def split: property.splits)

text \<open>
  The click handler raises the alert \<open>NoFeasiblePoints\<close> only from the sweep, and it
  reaches the sweep only with a salt key that \<open>saltProps\<close> knows.
\<close>

lemma handler_reaches_sweep:
  assumes "fst (calculateBtn_click pg cs) = Inl NoFeasiblePoints"
  shows "saltProps (saltSelect pg) \<noteq> Undefined
         \<and> (\<exists>beta T0 dInit s dTmin dTmax.
               sweep beta T0 dInit (saltSelect pg) s dTmin dTmax = Inl NoFeasiblePoints)"
  using assms
  by (auto simp: calculateBtn_click_def Let_def
      split: option.splits sum.splits prod.splits
      dest: getT0AtPressure_error computeXFromSalinity_error computeBeta_error
            computeXFromSalinity_known)
     blast+

text \<open>
  C7. In the one-dimensional sweep (for a salt key that \<open>saltProps\<close> knows; for any
  other key the handler has thrown before the loop), a step is emitted if and only
  if its total supercooling \<open>dT_init + extra\<close> is strictly below \<open>T0\<close>, the inverse
  \<open>ln aw\<close> is finite and strictly negative, and the resulting MAS is finite and strictly
  positive. The emitted points are exactly the feasible steps, in order; none of
  them has a total supercooling of \<open>T0\<close> or more; and the sweep ends with the
  \<open>NoFeasiblePoints\<close> alert exactly when no step was emitted.
\<close>

theorem sweep_emission:
  assumes "saltProps saltKey \<noteq> Undefined"
  shows "((\<exists>p. sweepStep beta T0 dInit saltKey s e = Inr (Some p))
            \<longleftrightarrow> stepFeasible beta T0 dInit saltKey e)
       \<and> (\<exists>ps. sweepLoop (sweepStep beta T0 dInit saltKey s) (sweepSteps dTmin dTmax) = Inr ps
             \<and> map dT_extra ps
                 = filter (stepFeasible beta T0 dInit saltKey) (sweepSteps dTmin dTmax)
             \<and> (\<forall>p \<in> set ps. \<exists>d. dInit = Some d \<and> d + dT_extra p < T0
                                 \<and> tmax p = T0 - (d + dT_extra p))
             \<and> (sweep beta T0 dInit saltKey s dTmin dTmax = Inl NoFeasiblePoints
                   \<longleftrightarrow> ps = [])
             \<and> (ps \<noteq> [] \<longrightarrow> (\<exists>r. sweep beta T0 dInit saltKey s dTmin dTmax = Inr r
                                    \<and> points r = ps)))"
proof -
  have a: "(\<exists>p. sweepStep beta T0 dInit saltKey s e = Inr (Some p))
            \<longleftrightarrow> stepFeasible beta T0 dInit saltKey e"
    using sweepStep_feasible [of beta T0 dInit saltKey e s] sweepStep_emitted
    by blast
  from sweepLoop_filter [OF assms, of beta T0 dInit s "sweepSteps dTmin dTmax"]
  obtain ps where ps: "sweepLoop (sweepStep beta T0 dInit saltKey s) (sweepSteps dTmin dTmax) = Inr ps"
    "map dT_extra ps = filter (stepFeasible beta T0 dInit saltKey) (sweepSteps dTmin dTmax)"
    "\<forall>p \<in> set ps. \<exists>d. dInit = Some d \<and> d + dT_extra p < T0 \<and> tmax p = T0 - (d + dT_extra p)"
    by blast
  have "sweep beta T0 dInit saltKey s dTmin dTmax = Inl NoFeasiblePoints \<longleftrightarrow> ps = []"
    by (simp add: sweep_def ps(1))
  moreover have "ps \<noteq> [] \<longrightarrow> (\<exists>r. sweep beta T0 dInit saltKey s dTmin dTmax = Inr r \<and> points r = ps)"
    by (simp add: sweep_def ps(1))
  ultimately show ?thesis using a ps by blast
qed

theorem sweep_emission_witness:
  "saltProps ''NaCl'' \<noteq> Undefined
   \<and> ((\<exists>p. sweepStep (Some (- (12426 / 10 ^ 7))) 280.15 (Some 4) ''NaCl'' 8 1 = Inr (Some p))
            \<longleftrightarrow> stepFeasible (Some (- (12426 / 10 ^ 7))) 280.15 (Some 4) ''NaCl'' 1)
   \<and> (\<exists>ps. sweepLoop (sweepStep (Some (- (12426 / 10 ^ 7))) 280.15 (Some 4) ''NaCl'' 8)
               (sweepSteps 0.5 5) = Inr ps
             \<and> map dT_extra ps
                 = filter (stepFeasible (Some (- (12426 / 10 ^ 7))) 280.15 (Some 4) ''NaCl'')
                     (sweepSteps 0.5 5)
             \<and> (\<forall>p \<in> set ps. \<exists>d. Some 4 = Some d \<and> d + dT_extra p < 280.15
                                 \<and> tmax p = 280.15 - (d + dT_extra p))
             \<and> (sweep (Some (- (12426 / 10 ^ 7))) 280.15 (Some 4) ''NaCl'' 8 0.5 5
                   = Inl NoFeasiblePoints \<longleftrightarrow> ps = [])
             \<and> (ps \<noteq> [] \<longrightarrow> (\<exists>r. sweep (Some (- (12426 / 10 ^ 7))) 280.15 (Some 4) ''NaCl'' 8
                                        0.5 5 = Inr r
                                    \<and> points r = ps)))"
proof -
  have h: "saltProps ''NaCl'' \<noteq> Undefined" by (simp add: saltProps_def)
  from h sweep_emission [OF h, of "Some (- (12426 / 10 ^ 7))" "280.15" "Some 4" 8 1 "0.5" 5]
  show ?thesis by (rule conjI)
qed

section \<open>The one-dimensional sweep: water yield\<close>

lemmas engine_defs = computeLnawFromX_def B1_def B2_def B3_def

lemma expandHigh_stop:
  "\<not> (computeLnawFromX high - t > 0 \<and> high < 1) \<Longrightarrow> expandHigh t high = high"
  by (subst expandHigh.simps) auto

lemma solve_ex0:
  "solveXFromLnaw (- (169279931620289979768800078339614655000000 /
      4241931790862436133272764379361335651687123)) = 453515611173263 / 11258999068426240"
proof -
  have e: "expandHigh (- (169279931620289979768800078339614655000000 /
      4241931790862436133272764379361335651687123)) 0.2 = 0.2"
    by (rule expandHigh_stop) (simp add: engine_defs)
  obtain a b where b: "bisect 50 (- (169279931620289979768800078339614655000000 /
      4241931790862436133272764379361335651687123)) 0 0.2 = (a, b)" by force
  then have "(a + b) / 2 = 453515611173263 / 11258999068426240"
    by (simp add: eval_nat_numeral Let_def engine_defs)
  then show ?thesis
    unfolding solveXFromLnaw_def Let_def e b by simp
qed

lemma step_ex0:
  "\<exists>p. sweepStep (Some (- (12426 / 10 ^ 7))) 280.15
        (Some (42676071034454369072743358013142071 / 8820084710396373118983342345219140))
        ''NaCl'' 8 (- 1) = Inr (Some p)
       \<and> dT_extra p = - 1
       \<and> mas p = 16564657698103431075000 / 2598944202203289454357
       \<and> mwy p = Some (- (2113447959761442279928 / 76197425411275782945))"
  by (simp add: sweepStep_def computeLnawFromDelta_def jsDiv_def Let_def solve_ex0
        computeSalinityFromX_def saltProps_def WATER_MOLAR_MASS_def)

lemma handler_CP:
  "calculateBtn_click pgCP noCaches =
     (sweep (Some (- (12426 / 10 ^ 7))) 280.15
        (Some (42676071034454369072743358013142071 / 8820084710396373118983342345219140))
        ''NaCl'' 8 (- 1) 5, noCaches)"
  by (simp add: calculateBtn_click_def pgCP_def computeBeta_def getGasObject_def gasData_def
        getT0AtPressure_def computeXFromSalinity_def saltProps_def WATER_MOLAR_MASS_def
        jsDiv_def engine_defs computeDeltaT_def Let_def)

lemma sweepSteps_first: "\<exists>es. sweepSteps dTmin dTmax = dTmin # es"
  by (simp add: sweepSteps_def nPoints_def Let_def upt_conv_Cons)

text \<open>
  The claim C8 as stated fails: the sweep has no filter on MWY. With cyclopentane,
  NaCl at 8 wt% and the supercooling range \<open>[-1, 5]\<close>, the first emitted point
  (extra supercooling \<open>-1\<close>) has a MAS of about 6.37 wt% and a MWY of about
  \<open>-27.7\<close>, outside \<open>[0, 100]\<close>.
\<close>

theorem sweep_emits_negative_mwy:
  "(case fst (calculateBtn_click pgCP noCaches) of
      Inl e \<Rightarrow> False
    | Inr r \<Rightarrow> dT_extra (hd (points r)) = - 1
              \<and> mwy (hd (points r)) = Some (- (2113447959761442279928 / 76197425411275782945)))
   \<and> - (2113447959761442279928 / 76197425411275782945) < (0::real)"
proof -
  let ?f = "sweepStep (Some (- (12426 / 10 ^ 7))) 280.15
        (Some (42676071034454369072743358013142071 / 8820084710396373118983342345219140))
        ''NaCl'' 8"
  from step_ex0 obtain p where p: "?f (- 1) = Inr (Some p)" "dT_extra p = - 1"
    "mwy p = Some (- (2113447959761442279928 / 76197425411275782945))"
    by blast
  from sweepSteps_first obtain es where es: "sweepSteps (- 1) 5 = - 1 # es" by blast
  have "saltProps ''NaCl'' \<noteq> Undefined" by (simp add: saltProps_def)
  from sweepLoop_filter [OF this] obtain ps where ps: "sweepLoop ?f es = Inr ps" by blast
  have "sweepLoop ?f (sweepSteps (- 1) 5) = Inr (p # ps)"
    unfolding es using p(1) ps by simp
  then have "\<exists>r. sweep (Some (- (12426 / 10 ^ 7))) 280.15
        (Some (42676071034454369072743358013142071 / 8820084710396373118983342345219140))
        ''NaCl'' 8 (- 1) 5 = Inr r \<and> hd (points r) = p"
    by (simp add: sweep_def)
  then show ?thesis using p(2,3) by (auto simp: handler_CP)
qed

lemma sweepStep_any_salinity:
  assumes "sweepStep beta T0 dInit saltKey s e = Inr (Some p)"
  shows "mwy p = massBalanceMWY s (mas p)
         \<and> (\<exists>p'. sweepStep beta T0 dInit saltKey s' e = Inr (Some p')
                 \<and> dT_extra p' = dT_extra p \<and> lnawValue p' = lnawValue p
                 \<and> xValue p' = xValue p \<and> mas p' = mas p
                 \<and> mwy p' = massBalanceMWY s' (mas p))"
  using assms
  by (auto simp: sweepStep_def massBalanceMWY_def Let_def
      split: option.splits sum.splits if_splits)

lemma sweepStep_skip_any_salinity:
  assumes "sweepStep beta T0 dInit saltKey s e = Inr None"
  shows "sweepStep beta T0 dInit saltKey s' e = Inr None"
  using assms
  by (auto simp: sweepStep_def Let_def split: option.splits sum.splits if_splits)

text \<open>
  C8, amended. The one-dimensional sweep never clamps MWY and does not filter on it
  either. Every emitted point carries the mass-balance value of its MAS as it is.
  Inside the loop the initial salinity enters nothing but the MWY and the mass
  diagnostics: for a given initial supercooling (which the handler computes before the
  loop) and any list of steps, the loop run with another initial salinity emits points
  for the same steps, with the same \<open>ln aw\<close>, \<open>X\<close> and MAS, whatever MWY results for
  them (below 0, above 100 or not finite).
\<close>

theorem sweep_emits_whatever_the_mwy:
  assumes "sweepLoop (sweepStep beta T0 dInit saltKey s) es = Inr ps"
  shows "\<exists>ps'. sweepLoop (sweepStep beta T0 dInit saltKey s') es = Inr ps'
           \<and> map dT_extra ps' = map dT_extra ps
           \<and> map lnawValue ps' = map lnawValue ps
           \<and> map xValue ps' = map xValue ps
           \<and> map mas ps' = map mas ps
           \<and> map mwy ps = map (\<lambda>p. massBalanceMWY s (mas p)) ps
           \<and> map mwy ps' = map (\<lambda>p. massBalanceMWY s' (mas p)) ps"
  using assms
proof (induction es arbitrary: ps)
  case Nil
  then show ?case by simp
next
  case (Cons e es)
  let ?f = "sweepStep beta T0 dInit saltKey s" and ?g = "sweepStep beta T0 dInit saltKey s'"
  show ?case
  proof (cases "?f e")
    case (Inl err)
    with Cons.prems show ?thesis by simp
  next
    case (Inr r)
    show ?thesis
    proof (cases r)
      case None
      with Inr have skip: "?f e = Inr None" by simp
      with Cons.prems have "sweepLoop ?f es = Inr ps" by simp
      from Cons.IH [OF this] sweepStep_skip_any_salinity [OF skip, of s']
      show ?thesis by simp
    next
      case (Some p)
      with Inr have emit: "?f e = Inr (Some p)" by simp
      with Cons.prems obtain qs where qs: "sweepLoop ?f es = Inr qs" "ps = p # qs"
        by (auto split: sum.splits)
      from sweepStep_any_salinity [OF emit, of s'] obtain p'
        where p': "mwy p = massBalanceMWY s (mas p)" "?g e = Inr (Some p')"
          "dT_extra p' = dT_extra p" "lnawValue p' = lnawValue p" "xValue p' = xValue p"
          "mas p' = mas p" "mwy p' = massBalanceMWY s' (mas p)"
        by blast
      from Cons.IH [OF qs(1)] obtain qs'
        where qs': "sweepLoop ?g es = Inr qs'" "map dT_extra qs' = map dT_extra qs"
          "map lnawValue qs' = map lnawValue qs" "map xValue qs' = map xValue qs"
          "map mas qs' = map mas qs"
          "map mwy qs = map (\<lambda>p. massBalanceMWY s (mas p)) qs"
          "map mwy qs' = map (\<lambda>p. massBalanceMWY s' (mas p)) qs"
        by blast
      have "sweepLoop ?g (e # es) = Inr (p' # qs')" using p'(2) qs'(1) by simp
      with p' qs' qs(2) show ?thesis by simp
    qed
  qed
qed

text \<open>
  The witness is the first step of the example: emitted with a MWY of about \<open>-27.7\<close>
  at 8 wt%, and emitted just the same at an initial salinity of 20 wt%, where the MWY
  is below \<open>-100\<close>.
\<close>

theorem sweep_emits_whatever_the_mwy_witness:
  "\<exists>p. sweepLoop (sweepStep (Some (- (12426 / 10 ^ 7))) 280.15
          (Some (42676071034454369072743358013142071 / 8820084710396373118983342345219140))
          ''NaCl'' 8) [- 1] = Inr [p]
       \<and> (\<exists>ps'. sweepLoop (sweepStep (Some (- (12426 / 10 ^ 7))) 280.15
                  (Some (42676071034454369072743358013142071
                           / 8820084710396373118983342345219140))
                  ''NaCl'' 20) [- 1] = Inr ps'
               \<and> map dT_extra ps' = map dT_extra [p]
               \<and> map lnawValue ps' = map lnawValue [p]
               \<and> map xValue ps' = map xValue [p]
               \<and> map mas ps' = map mas [p]
               \<and> map mwy [p] = map (\<lambda>p. massBalanceMWY 8 (mas p)) [p]
               \<and> map mwy ps' = map (\<lambda>p. massBalanceMWY 20 (mas p)) [p])
       \<and> mwy p = Some (- (2113447959761442279928 / 76197425411275782945))
       \<and> (\<exists>v. massBalanceMWY 20 (mas p) = Some v \<and> v < - 100)"
proof -
  from step_ex0 obtain p where p: "sweepStep (Some (- (12426 / 10 ^ 7))) 280.15
          (Some (42676071034454369072743358013142071 / 8820084710396373118983342345219140))
          ''NaCl'' 8 (- 1) = Inr (Some p)"
      "mas p = 16564657698103431075000 / 2598944202203289454357"
      "mwy p = Some (- (2113447959761442279928 / 76197425411275782945))"
    by blast
  then have l: "sweepLoop (sweepStep (Some (- (12426 / 10 ^ 7))) 280.15
          (Some (42676071034454369072743358013142071 / 8820084710396373118983342345219140))
          ''NaCl'' 8) [- 1] = Inr [p]"
    by simp
  have "\<exists>v. massBalanceMWY 20 (mas p) = Some v \<and> v < - 100"
    by (simp add: massBalanceMWY_def jsDiv_def Let_def p(2))
  with sweep_emits_whatever_the_mwy [OF l, of 20] l p(3) show ?thesis by blast
qed

section \<open>The two-dimensional sweep: water yield\<close>

lemma solve_ex1:
  "solveXFromLnaw (- (101500000 / 939908853)) = 1104930509742367 / 11258999068426240"
proof -
  have e: "expandHigh (- (101500000 / 939908853)) 0.2 = 0.2"
    by (rule expandHigh_stop) (simp add: engine_defs)
  obtain a b where b: "bisect 50 (- (101500000 / 939908853)) 0 0.2 = (a, b)" by force
  then have "(a + b) / 2 = 1104930509742367 / 11258999068426240"
    by (simp add: eval_nat_numeral Let_def engine_defs)
  then show ?thesis
    unfolding solveXFromLnaw_def Let_def e b by simp
qed

lemma cell_ex:
  "heatmapColumn (Some (- (12426 / 10 ^ 7))) (Some 280.15) ''NaCl'' 0 1 [270] 8
     = Inr [\<lparr>cx = 8, cy = 270,
         mwyVal = 3139356849414019657176 / 67262644780566591125,
         masVal = 13452528956113318225000 / 896726907160659863831,
         masIncr = 6278713698828039314352 / 896726907160659863831,
         masNormRaw = 1569678424707009828588 / 20624718864695176868113,
         masNorm = 1569678424707009828588 / 20624718864695176868113\<rparr>]"
  by (simp add: heatmapColumn_def heatmapCell_def computeXFromSalinity_def saltProps_def
        WATER_MOLAR_MASS_def jsDiv_def engine_defs computeDeltaT_def computeLnawFromDelta_def
        Let_def solve_ex1 computeSalinityFromX_def clamp01_def)

lemma step_ex1:
  "\<exists>p. sweepStep (Some (- (12426 / 10 ^ 7))) 280.15
        (Some (42676071034454369072743358013142071 / 8820084710396373118983342345219140))
        ''NaCl'' 8
        (10.15 - 42676071034454369072743358013142071 / 8820084710396373118983342345219140)
       = Inr (Some p)
       \<and> mas p = 13452528956113318225000 / 896726907160659863831
       \<and> mwy p = Some (3139356849414019657176 / 61881633198121263835)"
  by (simp add: sweepStep_def computeLnawFromDelta_def jsDiv_def Let_def solve_ex1
        computeSalinityFromX_def saltProps_def WATER_MOLAR_MASS_def)

text \<open>
  What a cell reports: the defaults, or the clamped ratio; when the MAS exceeds an
  initial salinity in \<open>(0, 100)\<close> the clamp is idle and the mass balance is the
  reported value times \<open>100 / (100 - sInit)\<close>.
\<close>

lemma heatmapCell_cases:
  assumes "heatmapCell beta T0 dInit saltKey mn rg sInit Tform = Inr c"
  shows "(masVal c = sInit \<and> mwyVal c = 0)
         \<or> (0 < masVal c \<and> mwyVal c = max 0 (min 100 ((masVal c - sInit) / masVal c * 100)))"
  using assms
  by (auto simp: heatmapCell_def Let_def split: option.splits sum.splits if_splits)

lemma heatmap_vs_mass_balance:
  assumes c: "heatmapCell beta T0 dInit saltKey mn rg sInit Tform = Inr c"
    and s: "0 < sInit" "sInit < masVal c" "sInit < 100"
  shows "mwyVal c = (masVal c - sInit) / masVal c * 100"
    and "massBalanceMWY sInit (masVal c) = Some (mwyVal c * (100 / (100 - sInit)))"
proof -
  let ?m = "masVal c"
  from heatmapCell_cases [OF c] s have m: "0 < ?m"
    and v: "mwyVal c = max 0 (min 100 ((?m - sInit) / ?m * 100))" by auto
  define q where "q = (?m - sInit) / ?m * 100"
  have q0: "0 \<le> q" unfolding q_def using s m
    by (intro mult_nonneg_nonneg divide_nonneg_pos) simp_all
  have r: "(?m - sInit) / ?m \<le> 1" using s m by (simp add: divide_le_eq)
  have "q \<le> 1 * 100" unfolding q_def by (rule mult_right_mono [OF r]) simp
  then have q1: "q \<le> 100" by simp
  from q0 q1 have "max 0 (min 100 q) = q" by simp
  then show e: "mwyVal c = (?m - sInit) / ?m * 100" unfolding v q_def .
  have "(100 - sInit) - sInit * (100 / ?m - 1) = 100 * (?m - sInit) / ?m"
    using m by (simp add: field_simps)
  then have "((100 - sInit) - sInit * (100 / ?m - 1)) / (100 - sInit) * 100
               = (?m - sInit) / ?m * 100 * (100 / (100 - sInit))"
    by simp
  then show "massBalanceMWY sInit ?m = Some (mwyVal c * (100 / (100 - sInit)))"
    using s(3) unfolding e by (simp add: massBalanceMWY_def jsDiv_def Let_def)
qed

text \<open>
  C1 does not hold of the code. The heatmap computes its yield as
  \<open>(mas - sInit) / mas * 100\<close>, clamped to \<open>[0, 100]\<close>, not by the mass balance of the
  one-dimensional sweep. For cyclopentane (\<open>beta = -1.2426e-3\<close>, \<open>T0 = 280.15\<close>) and
  NaCl, the cell with initial salinity 8 wt% and formation temperature 270 K lies in
  the window (its supercooling 10.15 K is between the initial 4.84 K and \<open>T0\<close>) and
  has a MAS of about 15.0 wt%; the heatmap reports a MWY of about 46.67, whereas the
  mass balance for the same MAS and salinity, which is also what the
  one-dimensional sweep emits at the same total supercooling, is about 50.73.
\<close>

theorem heatmap_mwy_differs_from_mass_balance:
  "computeBetaCustom pgCP ''CP'' False = Inr (Some (- (12426 / 10 ^ 7)))
   \<and> fst (getT0AtPressure pgCP noCaches ''CP'' 0.1 ''poly'') = Inr (Some 280.15)
   \<and> (case heatmapColumn (Some (- (12426 / 10 ^ 7))) (Some 280.15) ''NaCl'' 0 1 [270] 8 of
        Inr [c] \<Rightarrow>
          masVal c = 13452528956113318225000 / 896726907160659863831
          \<and> mwyVal c = 3139356849414019657176 / 67262644780566591125
          \<and> massBalanceMWY 8 (masVal c) = Some (3139356849414019657176 / 61881633198121263835)
          \<and> Some (mwyVal c) \<noteq> massBalanceMWY 8 (masVal c)
      | _ \<Rightarrow> False)
   \<and> map_option (\<lambda>p. (mas p, mwy p))
        (case sweepStep (Some (- (12426 / 10 ^ 7))) 280.15
                (Some (42676071034454369072743358013142071 / 8820084710396373118983342345219140))
                ''NaCl'' 8
                (10.15 - 42676071034454369072743358013142071 / 8820084710396373118983342345219140)
         of Inr q \<Rightarrow> q | Inl e \<Rightarrow> None)
       = Some (13452528956113318225000 / 896726907160659863831,
               Some (3139356849414019657176 / 61881633198121263835))"
proof -
  have a: "computeBetaCustom pgCP ''CP'' False = Inr (Some (- (12426 / 10 ^ 7)))"
    by (simp add: computeBetaCustom_def getGasObject_def gasData_def pgCP_def)
  have b: "fst (getT0AtPressure pgCP noCaches ''CP'' 0.1 ''poly'') = Inr (Some 280.15)"
    by (simp add: getT0AtPressure_def getGasObject_def gasData_def pgCP_def)
  have c: "massBalanceMWY 8 (13452528956113318225000 / 896726907160659863831)
             = Some (3139356849414019657176 / 61881633198121263835)"
    by (simp add: massBalanceMWY_def jsDiv_def Let_def)
  from step_ex1 obtain p where p: "sweepStep (Some (- (12426 / 10 ^ 7))) 280.15
        (Some (42676071034454369072743358013142071 / 8820084710396373118983342345219140))
        ''NaCl'' 8
        (10.15 - 42676071034454369072743358013142071 / 8820084710396373118983342345219140)
       = Inr (Some p)"
    "mas p = 13452528956113318225000 / 896726907160659863831"
    "mwy p = Some (3139356849414019657176 / 61881633198121263835)"
    by blast
  show ?thesis
    unfolding cell_ex p(1) using a b c p(2,3) by simp
qed

end
